theory Spec2Isabelle
  imports Main
begin

section \<open>The demo login and dashboard script (app.js)\<close>

text \<open>
  The script keeps three pieces of state: the array \<open>users\<close>, the variable
  \<open>currentUser\<close> and, through the browser, the local storage and the document of the
  page. The model passes them around as one record. The markup of the page is not part of
  the sources, so the document is a component of the state: the list of its elements in
  document order, each with the attributes and properties the script reads or writes.
  An element reference is the position of the element in that list. The text and the
  markup the script writes into an element are kept as properties of that element: the
  elements it writes into are taken to contain none of the elements it looks up. Writes
  to the storage are taken to succeed.

  Strings are lists of characters, one character for each code unit of the script's
  string; the cross mark of the error messages lies outside that range and is written as
  the three bytes it has in the source file (its length is never taken).
\<close>

subsection \<open>Data\<close>

record user =
  id' :: nat
  name :: string
  email :: string
  password :: string
  userType :: string
  role :: string

text \<open>
  The values \<open>JSON.parse\<close> can return, and so the values \<open>currentUser\<close> can hold:
  \<open>JNull\<close> is \<open>null\<close>, an object is the list of its properties. The only number the
  script makes is a list length plus one, and it never reads a number back.
\<close>

datatype jsvalue =
    JNull
  | JBool bool
  | JNumber int
  | JString string
  | JArray "jsvalue list"
  | JObject "(string \<times> jsvalue) list"

text \<open>A user object of the array, as a value: its six properties in the order the script writes them.\<close>

definition userObject :: "user \<Rightarrow> jsvalue" where
  "userObject u = JObject
     [(''id'', JNumber (int (id' u))), (''name'', JString (name u)),
      (''email'', JString (email u)), (''password'', JString (password u)),
      (''userType'', JString (userType u)), (''role'', JString (role u))]"

text \<open>
  An element: its id (empty when it has none; the script never looks the empty id up),
  its class list, its \<open>href\<close> attribute when it has one, and the properties
  \<open>value\<close>, \<open>style.display\<close>, \<open>innerHTML\<close> and \<open>textContent\<close>.
\<close>

record element =
  el_id :: string
  classList :: "string list"
  href :: "string option"
  el_value :: string
  display :: string
  innerHTML :: string
  textContent :: string

text \<open>
  The functions of the platform the script calls and does not define: they are parameters
  of the model. \<open>JSON_parse\<close> returns \<open>None\<close> where \<open>JSON.parse\<close> throws a SyntaxError;
  \<open>Number_toString\<close> is the text of a number.
\<close>

record platform =
  JSON_parse :: "string \<Rightarrow> jsvalue option"
  JSON_stringify :: "jsvalue \<Rightarrow> string"
  Number_toString :: "int \<Rightarrow> string"
  toUpperCase :: "string \<Rightarrow> string"

record state =
  users :: "user list"
  currentUser :: jsvalue
  localStorage :: "string \<rightharpoonup> string"
  document :: "element list"

datatype error = TypeError | SyntaxError

text \<open>
  A call either returns or throws; an exception is never caught in the script, and the
  state it leaves behind is the state at the point of the throw.
\<close>

datatype outcome = Returns state | Throws error state

fun stateOf :: "outcome \<Rightarrow> state" where
  "stateOf (Returns st) = st"
| "stateOf (Throws e st) = st"

fun raises :: "outcome \<Rightarrow> bool" where
  "raises (Returns st) = False"
| "raises (Throws e st) = True"

definition andThen :: "outcome \<Rightarrow> (state \<Rightarrow> outcome) \<Rightarrow> outcome" where
  "andThen r f = (case r of Returns st \<Rightarrow> f st | Throws e st \<Rightarrow> Throws e st)"

subsection \<open>The users array and the module state (lines 1-29)\<close>

definition demoUsers :: "user list" where
  "demoUsers =
    [\<lparr>id' = 1, name = ''Demo User'', email = ''demo@lawfirm.com'', password = ''Demo@123'',
      userType = ''firm'', role = ''Law Firm''\<rparr>,
     \<lparr>id' = 2, name = ''Solo Attorney'', email = ''solo@attorney.com'', password = ''Solo@123'',
      userType = ''solo'', role = ''Solo Practitioner''\<rparr>,
     \<lparr>id' = 3, name = ''Corporate Counsel'', email = ''counsel@corp.com'', password = ''Corp@123'',
      userType = ''corporate'', role = ''In-House Counsel''\<rparr>]"

text \<open>The state when the script has been evaluated, for a given storage and page.\<close>

definition initialState :: "(string \<rightharpoonup> string) \<Rightarrow> element list \<Rightarrow> state" where
  "initialState storage page =
     \<lparr>users = demoUsers, currentUser = JNull, localStorage = storage, document = page\<rparr>"

subsection \<open>The document\<close>

fun firstIndex :: "('a \<Rightarrow> bool) \<Rightarrow> 'a list \<Rightarrow> nat option" where
  "firstIndex P [] = None"
| "firstIndex P (x # xs) = (if P x then Some 0 else map_option Suc (firstIndex P xs))"

text \<open>\<open>document.getElementById\<close>: the first element with the id, \<open>None\<close> for \<open>null\<close>.\<close>

definition getElementById :: "string \<Rightarrow> element list \<Rightarrow> nat option" where
  "getElementById i doc = firstIndex (\<lambda>e. el_id e = i) doc"

definition elementById :: "string \<Rightarrow> element list \<Rightarrow> element option" where
  "elementById i doc = map_option (\<lambda>k. doc ! k) (getElementById i doc)"

definition hasClass :: "string \<Rightarrow> element \<Rightarrow> bool" where
  "hasClass c e = (c \<in> set (classList e))"

definition classList_add :: "string \<Rightarrow> element \<Rightarrow> element" where
  "classList_add c e =
     e\<lparr>classList := (if c \<in> set (classList e) then classList e else classList e @ [c])\<rparr>"

definition classList_remove :: "string \<Rightarrow> element \<Rightarrow> element" where
  "classList_remove c e = e\<lparr>classList := removeAll c (classList e)\<rparr>"

text \<open>\<open>document.querySelector('.sidebar-link[href="#"]')\<close>.\<close>

definition defaultLink :: "element list \<Rightarrow> nat option" where
  "defaultLink doc = firstIndex (\<lambda>e. hasClass ''sidebar-link'' e \<and> href e = Some ''#'') doc"

text \<open>
  \<open>document.getElementById(i).p = v\<close> and \<open>document.getElementById(i).classList.add(c)\<close>:
  a TypeError when the page has no such element.
\<close>

definition onElement :: "string \<Rightarrow> (element \<Rightarrow> element) \<Rightarrow> state \<Rightarrow> outcome" where
  "onElement i f st =
     (case getElementById i (document st) of
        None \<Rightarrow> Throws TypeError st
      | Some k \<Rightarrow> Returns (st\<lparr>document := (document st)[k := f (document st ! k)]\<rparr>))"

text \<open>\<open>document.getElementById(i).value\<close>, \<open>None\<close> for the TypeError.\<close>

definition inputValue :: "string \<Rightarrow> element list \<Rightarrow> string option" where
  "inputValue i doc = map_option el_value (elementById i doc)"

text \<open>
  Reading a property of a value: a TypeError on \<open>null\<close>, \<open>undefined\<close> (here \<open>None\<close>)
  for a property the value does not have.
\<close>

definition getProperty :: "jsvalue \<Rightarrow> string \<Rightarrow> error + jsvalue option" where
  "getProperty v k =
     (case v of
        JNull \<Rightarrow> Inl TypeError
      | JObject kvs \<Rightarrow> Inr (map_of kvs k)
      | _ \<Rightarrow> Inr None)"

text \<open>
  The conversion of a value to a string. A parsed object has no function among its
  properties: with a \<open>toString\<close> property of its own it has no callable
  \<open>toString\<close>, its \<open>valueOf\<close> is not callable or returns the object itself, and
  the conversion throws a TypeError; without one it is \<open>[object Object]\<close>. An array is
  its elements joined by commas, \<open>null\<close> elements as the empty string, and throws
  where an element does.
\<close>

fun joinTexts :: "(error + string) list \<Rightarrow> error + string" where
  "joinTexts [] = Inr []"
| "joinTexts [r] = r"
| "joinTexts (r # rs) =
     (case r of
        Inl e \<Rightarrow> Inl e
      | Inr s \<Rightarrow> (case joinTexts rs of Inl e \<Rightarrow> Inl e | Inr t \<Rightarrow> Inr (s @ '','' @ t)))"

fun ToString :: "platform \<Rightarrow> jsvalue \<Rightarrow> error + string" where
  "ToString P JNull = Inr ''null''"
| "ToString P (JBool b) = Inr (if b then ''true'' else ''false'')"
| "ToString P (JNumber n) = Inr (Number_toString P n)"
| "ToString P (JString s) = Inr s"
| "ToString P (JArray xs) = joinTexts (map (\<lambda>x. if x = JNull then Inr [] else ToString P x) xs)"
| "ToString P (JObject kvs) =
     (if map_of kvs ''toString'' = None then Inr ''[object Object]'' else Inl TypeError)"

text \<open>
  An assignment to \<open>textContent\<close> converts the value first: \<open>undefined\<close> and
  \<open>null\<close> give the empty text, every other value its string, or the TypeError of the
  conversion, and then nothing is assigned.
\<close>

definition textOf :: "platform \<Rightarrow> jsvalue option \<Rightarrow> error + string" where
  "textOf P x =
     (case x of
        None \<Rightarrow> Inr []
      | Some JNull \<Rightarrow> Inr []
      | Some w \<Rightarrow> ToString P w)"

definition crossMark :: string where
  "crossMark = [CHR 0xE2, CHR 0x9D, CHR 0x8C]"

text \<open>The markup of an error message: \<open><div class="form-message error">\<close>, the cross mark, the text.\<close>

definition errorMessage :: "string \<Rightarrow> string" where
  "errorMessage msg =
     ''<div class='' @ [CHR 0x22] @ ''form-message error'' @ [CHR 0x22] @ ''>'' @ crossMark
       @ '' '' @ msg @ ''</div>''"

text \<open>\<open>errorDiv.innerHTML = ...\<close>, where \<open>errorDiv\<close> may be \<open>null\<close>.\<close>

definition showError :: "nat option \<Rightarrow> string \<Rightarrow> state \<Rightarrow> outcome" where
  "showError errorDiv msg st =
     (case errorDiv of
        None \<Rightarrow> Throws TypeError st
      | Some k \<Rightarrow>
          Returns (st\<lparr>document := (document st)[k := (document st ! k)\<lparr>innerHTML := errorMessage msg\<rparr>]\<rparr>))"

subsection \<open>showSection (lines 115-133)\<close>

text \<open>
  \<open>linkEl\<close> is \<open>None\<close> when the argument is omitted; a reference to an element that
  is not in the document changes nothing in the document.
\<close>

definition showSection :: "string \<Rightarrow> nat option \<Rightarrow> state \<Rightarrow> outcome" where
  "showSection sectionId linkEl st =
     (let d1 = map (\<lambda>e. if hasClass ''content-section'' e then classList_remove ''active'' e else e)
                 (document st);
          d2 = map (\<lambda>e. if hasClass ''sidebar-link'' e then classList_remove ''active'' e else e) d1
      in case getElementById (sectionId @ ''-section'') d2 of
           None \<Rightarrow> Throws TypeError (st\<lparr>document := d2\<rparr>)
         | Some k \<Rightarrow>
             let d3 = d2[k := classList_add ''active'' (d2 ! k)]
             in Returns (st\<lparr>document :=
                  (case linkEl of
                     None \<Rightarrow> d3
                   | Some j \<Rightarrow> if j < length d3 then d3[j := classList_add ''active'' (d3 ! j)] else d3)\<rparr>))"

subsection \<open>showDashboard (lines 103-113)\<close>

definition setUserText :: "platform \<Rightarrow> string \<Rightarrow> string \<Rightarrow> state \<Rightarrow> outcome" where
  "setUserText P i prop st =
     (case getElementById i (document st) of
        None \<Rightarrow> Throws TypeError st
      | Some k \<Rightarrow>
          (case getProperty (currentUser st) prop of
             Inl e \<Rightarrow> Throws e st
           | Inr x \<Rightarrow>
               (case textOf P x of
                  Inl e \<Rightarrow> Throws e st
                | Inr t \<Rightarrow>
                    Returns (st\<lparr>document := (document st)[k := (document st ! k)\<lparr>textContent := t\<rparr>]\<rparr>))))"

text \<open>\<open>currentUser.name.charAt(0).toUpperCase()\<close>: only a string has \<open>charAt\<close>.\<close>

definition setUserInitial :: "platform \<Rightarrow> state \<Rightarrow> outcome" where
  "setUserInitial P st =
     (case getElementById ''userInitial'' (document st) of
        None \<Rightarrow> Throws TypeError st
      | Some k \<Rightarrow>
          (case getProperty (currentUser st) ''name'' of
             Inl e \<Rightarrow> Throws e st
           | Inr (Some (JString s)) \<Rightarrow>
               Returns (st\<lparr>document :=
                 (document st)[k := (document st ! k)\<lparr>textContent := toUpperCase P (take 1 s)\<rparr>]\<rparr>)
           | Inr _ \<Rightarrow> Throws TypeError st))"

definition showDashboard :: "platform \<Rightarrow> state \<Rightarrow> outcome" where
  "showDashboard P st =
     andThen (onElement ''authScreen'' (\<lambda>e. e\<lparr>display := ''none''\<rparr>) st) (\<lambda>st.
     andThen (onElement ''dashboard'' (classList_add ''active'') st) (\<lambda>st.
     andThen (setUserText P ''displayUserName'' ''name'' st) (\<lambda>st.
     andThen (setUserText P ''displayUserRole'' ''role'' st) (\<lambda>st.
     andThen (setUserInitial P st) (\<lambda>st.
     showSection ''dashboard'' None st)))))"

subsection \<open>handleLogin (lines 32-47)\<close>

text \<open>\<open>event.preventDefault()\<close> touches nothing of the state.\<close>

definition handleLogin :: "platform \<Rightarrow> state \<Rightarrow> outcome" where
  "handleLogin P st =
     (case inputValue ''loginEmail'' (document st) of
        None \<Rightarrow> Throws TypeError st
      | Some e \<Rightarrow>
     (case inputValue ''loginPassword'' (document st) of
        None \<Rightarrow> Throws TypeError st
      | Some p \<Rightarrow>
     (let errorDiv = getElementById ''loginError'' (document st)
      in case find (\<lambda>u. email u = e \<and> password u = p) (users st) of
           Some u \<Rightarrow>
             showDashboard P
               (st\<lparr>currentUser := userObject u,
                   localStorage := (localStorage st)(''currentUser'' \<mapsto> JSON_stringify P (userObject u))\<rparr>)
         | None \<Rightarrow> showError errorDiv ''Invalid email or password'' st)))"

subsection \<open>handleRegister (lines 49-81)\<close>

text \<open>
  The four fields are read first, each read a TypeError when the page lacks the field;
  the error element is looked up before the checks and used only where a check fails.
\<close>

definition roleOf :: "string \<Rightarrow> string" where
  "roleOf t = (if t = ''firm'' then ''Law Firm''
               else if t = ''solo'' then ''Solo Practitioner'' else ''In-House Counsel'')"

definition handleRegister :: "platform \<Rightarrow> state \<Rightarrow> outcome" where
  "handleRegister P st =
     (case inputValue ''registerName'' (document st) of
        None \<Rightarrow> Throws TypeError st
      | Some n \<Rightarrow>
     (case inputValue ''registerEmail'' (document st) of
        None \<Rightarrow> Throws TypeError st
      | Some e \<Rightarrow>
     (case inputValue ''registerPassword'' (document st) of
        None \<Rightarrow> Throws TypeError st
      | Some p \<Rightarrow>
     (case inputValue ''registerUserType'' (document st) of
        None \<Rightarrow> Throws TypeError st
      | Some t \<Rightarrow>
     (let errorDiv = getElementById ''registerError'' (document st)
      in if length p < 6 then showError errorDiv ''Password must be at least 6 characters'' st
         else (case find (\<lambda>u. email u = e) (users st) of
                 Some existingUser \<Rightarrow> showError errorDiv ''Email already registered'' st
               | None \<Rightarrow>
                   (let newUser = \<lparr>id' = length (users st) + 1, name = n, email = e, password = p,
                                   userType = t, role = roleOf t\<rparr>
                    in showDashboard P
                         (st\<lparr>users := users st @ [newUser],
                             currentUser := userObject newUser,
                             localStorage := (localStorage st)
                               (''currentUser'' \<mapsto> JSON_stringify P (userObject newUser))\<rparr>))))))))"

subsection \<open>handleLogout, the form toggles (lines 83-101)\<close>

definition handleLogout :: "state \<Rightarrow> outcome" where
  "handleLogout st =
     andThen (onElement ''dashboard'' (classList_remove ''active'')
                (st\<lparr>currentUser := JNull, localStorage := (localStorage st)(''currentUser'' := None)\<rparr>)) (\<lambda>st.
     andThen (onElement ''authScreen'' (\<lambda>e. e\<lparr>display := ''flex''\<rparr>) st) (\<lambda>st.
     andThen (onElement ''loginEmail'' (\<lambda>e. e\<lparr>el_value := []\<rparr>) st) (\<lambda>st.
     onElement ''loginPassword'' (\<lambda>e. e\<lparr>el_value := []\<rparr>) st)))"

definition toggleToRegister :: "state \<Rightarrow> outcome" where
  "toggleToRegister st =
     andThen (onElement ''loginForm'' (\<lambda>e. e\<lparr>display := ''none''\<rparr>) st) (\<lambda>st.
     onElement ''registerForm'' (\<lambda>e. e\<lparr>display := ''block''\<rparr>) st)"

definition toggleToLogin :: "state \<Rightarrow> outcome" where
  "toggleToLogin st =
     andThen (onElement ''registerForm'' (\<lambda>e. e\<lparr>display := ''none''\<rparr>) st) (\<lambda>st.
     onElement ''loginForm'' (\<lambda>e. e\<lparr>display := ''block''\<rparr>) st)"

subsection \<open>The load handler (lines 136-149)\<close>

text \<open>\<open>if (savedUser)\<close>: \<open>null\<close> and the empty string are false.\<close>

definition loadHandler :: "platform \<Rightarrow> state \<Rightarrow> outcome" where
  "loadHandler P st =
     (case localStorage st ''currentUser'' of
        None \<Rightarrow> Returns st
      | Some savedUser \<Rightarrow>
          if savedUser = [] then Returns st
          else (case JSON_parse P savedUser of
                  None \<Rightarrow> Throws SyntaxError st
                | Some v \<Rightarrow>
                    andThen (showDashboard P (st\<lparr>currentUser := v\<rparr>)) (\<lambda>st.
                      case defaultLink (document st) of
                        Some l \<Rightarrow> showSection ''dashboard'' (Some l) st
                      | None \<Rightarrow> showSection ''dashboard'' None st)))"

subsection \<open>The operations of the page\<close>

text \<open>
  What the page can run: the load handler once, and the handlers of its forms, buttons
  and links. Typing into a field is the user's act and changes the field's value only.
\<close>

datatype operation =
    Load
  | Login
  | Register
  | Logout
  | ToggleToRegister
  | ToggleToLogin
  | ShowSection string "nat option"

fun run :: "platform \<Rightarrow> operation \<Rightarrow> state \<Rightarrow> outcome" where
  "run P Load st = loadHandler P st"
| "run P Login st = handleLogin P st"
| "run P Register st = handleRegister P st"
| "run P Logout st = handleLogout st"
| "run P ToggleToRegister st = toggleToRegister st"
| "run P ToggleToLogin st = toggleToLogin st"
| "run P (ShowSection sectionId linkEl) st = showSection sectionId linkEl st"

definition typeInto :: "string \<Rightarrow> string \<Rightarrow> state \<Rightarrow> state" where
  "typeInto i v st =
     (case getElementById i (document st) of
        None \<Rightarrow> st
      | Some k \<Rightarrow> st\<lparr>document := (document st)[k := (document st ! k)\<lparr>el_value := v\<rparr>]\<rparr>)"

subsection \<open>What the claims speak of\<close>

text \<open>
  The page the script is written for has every element the script looks up by id, its
  content sections and sidebar links are different elements, the dashboard container
  is neither, and the section shown by default is a content section.
\<close>

definition scriptIds :: "string list" where
  "scriptIds =
     [''loginEmail'', ''loginPassword'', ''loginError'', ''registerName'', ''registerEmail'',
      ''registerPassword'', ''registerUserType'', ''registerError'', ''authScreen'', ''dashboard'',
      ''loginForm'', ''registerForm'', ''displayUserName'', ''displayUserRole'', ''userInitial'',
      ''dashboard-section'']"

definition pageOk :: "element list \<Rightarrow> bool" where
  "pageOk doc \<longleftrightarrow>
     list_all (\<lambda>i. getElementById i doc \<noteq> None) scriptIds \<and>
     list_all (\<lambda>e. \<not> (hasClass ''content-section'' e \<and> hasClass ''sidebar-link'' e)) doc \<and>
     list_all (\<lambda>e. el_id e \<noteq> ''dashboard'' \<or>
                 (\<not> hasClass ''content-section'' e \<and> \<not> hasClass ''sidebar-link'' e)) doc \<and>
     list_all (\<lambda>e. el_id e \<noteq> ''dashboard-section'' \<or> hasClass ''content-section'' e) doc"

text \<open>The dashboard is shown: the auth screen is not displayed and the container is active.\<close>

definition dashboardShown :: "element list \<Rightarrow> bool" where
  "dashboardShown doc \<longleftrightarrow>
     (case elementById ''authScreen'' doc of None \<Rightarrow> False | Some a \<Rightarrow> display a = ''none'') \<and>
     (case elementById ''dashboard'' doc of None \<Rightarrow> False | Some d \<Rightarrow> hasClass ''active'' d)"

text \<open>The positions of the elements of a class that carry the active class.\<close>

definition activeOf :: "string \<Rightarrow> element list \<Rightarrow> nat list" where
  "activeOf c doc = filter (\<lambda>i. hasClass c (doc ! i) \<and> hasClass ''active'' (doc ! i)) [0..<length doc]"

definition isString :: "jsvalue option \<Rightarrow> bool" where
  "isString x = (case x of Some (JString s) \<Rightarrow> True | _ \<Rightarrow> False)"

definition isNumber :: "jsvalue option \<Rightarrow> bool" where
  "isNumber x = (case x of Some (JNumber n) \<Rightarrow> True | _ \<Rightarrow> False)"

text \<open>A user record: an object with the six properties of the records of the array.\<close>

definition isUserRecord :: "jsvalue \<Rightarrow> bool" where
  "isUserRecord v =
     (case v of
        JObject kvs \<Rightarrow>
          isNumber (map_of kvs ''id'') \<and> isString (map_of kvs ''name'') \<and>
          isString (map_of kvs ''email'') \<and> isString (map_of kvs ''password'') \<and>
          isString (map_of kvs ''userType'') \<and> isString (map_of kvs ''role'')
      | _ \<Rightarrow> False)"

definition hasStringName :: "jsvalue \<Rightarrow> bool" where
  "hasStringName v = (case v of JObject kvs \<Rightarrow> isString (map_of kvs ''name'') | _ \<Rightarrow> False)"

text \<open>
  The values that have a string: every value but an object with a \<open>toString\<close> property
  of its own, and an array that holds such an object, at any depth of arrays.
\<close>

fun convertible :: "jsvalue \<Rightarrow> bool" where
  "convertible (JArray xs) = list_all convertible xs"
| "convertible (JObject kvs) = (map_of kvs ''toString'' = None)"
| "convertible v = True"

text \<open>
  The values the load handler can show: an object whose name is a string and whose role,
  when it has one, has a string.
\<close>

definition restorable :: "jsvalue \<Rightarrow> bool" where
  "restorable v =
     (case v of
        JObject kvs \<Rightarrow>
          isString (map_of kvs ''name'') \<and>
          (case map_of kvs ''role'' of None \<Rightarrow> True | Some w \<Rightarrow> convertible w)
      | _ \<Rightarrow> False)"

text \<open>
  The stored entry mirrors the session: absent when \<open>currentUser\<close> is \<open>null\<close>, the
  serialization of \<open>currentUser\<close> when that is a user record.
\<close>

definition sessionMirrored :: "platform \<Rightarrow> state \<Rightarrow> bool" where
  "sessionMirrored P st \<longleftrightarrow>
     (case currentUser st of
        JNull \<Rightarrow> localStorage st ''currentUser'' = None
      | v \<Rightarrow> \<not> isUserRecord v \<or> localStorage st ''currentUser'' = Some (JSON_stringify P v))"

text \<open>The section of a given id carries the active class.\<close>

definition sectionActive :: "string \<Rightarrow> element list \<Rightarrow> bool" where
  "sectionActive sectionId doc =
     (case elementById (sectionId @ ''-section'') doc of None \<Rightarrow> False | Some e \<Rightarrow> hasClass ''active'' e)"

text \<open>The part of the state that is not the document.\<close>

definition sessionOf :: "state \<Rightarrow> user list \<times> jsvalue \<times> (string \<rightharpoonup> string)" where
  "sessionOf st = (users st, currentUser st, localStorage st)"

subsection \<open>A page and a platform for the examples\<close>

definition el :: "string \<Rightarrow> string list \<Rightarrow> element" where
  "el i cs = \<lparr>el_id = i, classList = cs, href = None, el_value = [], display = [],
              innerHTML = [], textContent = []\<rparr>"

definition samplePage :: "element list" where
  "samplePage =
     [el ''authScreen'' [''auth-container''],
      el ''loginForm'' [],
      el ''loginEmail'' [],
      el ''loginPassword'' [],
      el ''loginError'' [],
      el ''registerForm'' [],
      el ''registerName'' [],
      el ''registerEmail'' [],
      el ''registerPassword'' [],
      el ''registerUserType'' [],
      el ''registerError'' [],
      el ''dashboard'' [''dashboard''],
      el ''displayUserName'' [],
      el ''displayUserRole'' [],
      el ''userInitial'' [],
      (el [] [''sidebar-link''])\<lparr>href := Some ''#''\<rparr>,
      (el [] [''sidebar-link'', ''active''])\<lparr>href := Some ''#''\<rparr>,
      el ''dashboard-section'' [''content-section''],
      el ''cases-section'' [''content-section'', ''active'']]"

definition quoted :: "string \<Rightarrow> string" where
  "quoted s = [CHR 0x22] @ s @ [CHR 0x22]"

text \<open>The stored entry \<open>{"id":1,"name":"Admin","role":"admin"}\<close> and the value it parses to.\<close>

definition adminEntry :: string where
  "adminEntry = ''{'' @ quoted ''id'' @ '':1,'' @ quoted ''name'' @ '':'' @ quoted ''Admin'' @ '',''
     @ quoted ''role'' @ '':'' @ quoted ''admin'' @ ''}''"

definition adminObject :: jsvalue where
  "adminObject = JObject [(''id'', JNumber 1), (''name'', JString ''Admin''), (''role'', JString ''admin'')]"

text \<open>The stored entry \<open>{"name":"A","role":{"toString":1}}\<close> and the value it parses to.\<close>

definition badRoleEntry :: string where
  "badRoleEntry = ''{'' @ quoted ''name'' @ '':'' @ quoted ''A'' @ '','' @ quoted ''role'' @ '':{''
     @ quoted ''toString'' @ '':1}}''"

definition badRoleObject :: jsvalue where
  "badRoleObject = JObject [(''name'', JString ''A''), (''role'', JObject [(''toString'', JNumber 1)])]"

fun decimal :: "nat \<Rightarrow> string" where
  "decimal n = (if n < 10 then [char_of (48 + n)] else decimal (n div 10) @ [char_of (48 + n mod 10)])"

text \<open>The serialization of a user object whose strings need no escaping.\<close>

definition userEntry :: "user \<Rightarrow> string" where
  "userEntry u = ''{'' @ quoted ''id'' @ '':'' @ decimal (id' u) @ '','' @ quoted ''name'' @ '':''
     @ quoted (name u) @ '','' @ quoted ''email'' @ '':'' @ quoted (email u) @ '',''
     @ quoted ''password'' @ '':'' @ quoted (password u) @ '','' @ quoted ''userType'' @ '':''
     @ quoted (userType u) @ '','' @ quoted ''role'' @ '':'' @ quoted (role u) @ ''}''"

text \<open>
  What the browser's functions return on the values of the examples: the entries above
  and \<open>null\<close> parse, the word \<open>garbage\<close> does not; user objects are serialized;
  whole numbers are written in decimal; letters of the Latin alphabet are put in upper
  case.
\<close>

definition samplePlatform :: platform where
  "samplePlatform =
     \<lparr>JSON_parse = (\<lambda>s. if s = adminEntry then Some adminObject
                         else if s = badRoleEntry then Some badRoleObject
                         else if s = userEntry (hd demoUsers) then Some (userObject (hd demoUsers))
                         else if s = ''null'' then Some JNull
                         else None),
      JSON_stringify = (\<lambda>v. case v of
           JObject [(k1, JNumber n), (k2, JString a), (k3, JString b), (k4, JString c),
                    (k5, JString d), (k6, JString e)] \<Rightarrow>
             userEntry \<lparr>id' = nat n, name = a, email = b, password = c, userType = d, role = e\<rparr>
         | _ \<Rightarrow> ''null''),
      Number_toString = (\<lambda>n. if 0 \<le> n then decimal (nat n) else ''-'' @ decimal (nat (- n))),
      toUpperCase = map (\<lambda>c. if 97 \<le> (of_char c :: nat) \<and> (of_char c :: nat) \<le> 122
                                then char_of ((of_char c :: nat) - 32) else c)\<rparr>"

text \<open>The page as the script finds it, with a given storage and with the forms filled in.\<close>

definition sampleState :: "(string \<rightharpoonup> string) \<Rightarrow> state" where
  "sampleState storage = initialState storage samplePage"

definition loginWith :: "string \<Rightarrow> string \<Rightarrow> state \<Rightarrow> state" where
  "loginWith e p st = typeInto ''loginPassword'' p (typeInto ''loginEmail'' e st)"

definition registerWith :: "string \<Rightarrow> string \<Rightarrow> string \<Rightarrow> string \<Rightarrow> state \<Rightarrow> state" where
  "registerWith n e p t st =
     typeInto ''registerUserType'' t (typeInto ''registerPassword'' p
       (typeInto ''registerEmail'' e (typeInto ''registerName'' n st)))"

section \<open>Properties\<close>

subsection \<open>Looking elements up\<close>

lemma firstIndex_Some:
  "firstIndex P xs = Some k \<Longrightarrow> k < length xs \<and> P (xs ! k) \<and> (\<forall>j<k. \<not> P (xs ! j))"
proof (induction xs arbitrary: k)
  case Nil
  then show ?case by simp
next
  case (Cons x xs)
  show ?case
  proof (cases "P x")
    case True
    with Cons.prems show ?thesis by simp
  next
    case False
    with Cons.prems obtain k' where k': "firstIndex P xs = Some k'" "k = Suc k'"
      by auto
    from Cons.IH[OF k'(1)] False k'(2) show ?thesis
      by (auto simp: nth_Cons split: nat.splits)
  qed
qed

lemma firstIndex_cong: "map P xs = map P ys \<Longrightarrow> firstIndex P xs = firstIndex P ys"
proof (induction xs arbitrary: ys)
  case Nil
  then show ?case by simp
next
  case (Cons x xs)
  then obtain y ys' where "ys = y # ys'" by (cases ys) auto
  with Cons show ?case by auto
qed

lemma getElementById_Some:
  "getElementById i doc = Some k \<Longrightarrow> k < length doc \<and> el_id (doc ! k) = i"
  using firstIndex_Some[of "\<lambda>e. el_id e = i" doc k] unfolding getElementById_def by simp

lemma getElementById_ids:
  "map el_id doc' = map el_id doc \<Longrightarrow> getElementById i doc' = getElementById i doc"
proof -
  assume "map el_id doc' = map el_id doc"
  then have "map ((\<lambda>x. x = i) \<circ> el_id) doc' = map ((\<lambda>x. x = i) \<circ> el_id) doc"
    by (simp only: map_map[symmetric])
  then have "map (\<lambda>e. el_id e = i) doc' = map (\<lambda>e. el_id e = i) doc"
    by (simp add: comp_def)
  then show ?thesis
    unfolding getElementById_def by (rule firstIndex_cong)
qed

lemma getElementById_update [simp]:
  "el_id x = el_id (doc ! k) \<Longrightarrow> getElementById i (doc[k := x]) = getElementById i doc"
proof (rule getElementById_ids)
  assume x: "el_id x = el_id (doc ! k)"
  show "map el_id (doc[k := x]) = map el_id doc"
  proof (cases "k < length doc")
    case True
    then show ?thesis using x by (simp add: map_update list_update_same_conv)
  next
    case False
    then have "doc[k := x] = doc" by (simp add: list_update_beyond)
    then show ?thesis by simp
  qed
qed

lemma getElementById_map [simp]:
  "(\<And>e. el_id (g e) = el_id e) \<Longrightarrow> getElementById i (map g doc) = getElementById i doc"
  by (rule getElementById_ids) simp

subsection \<open>Class lists\<close>

lemma hasClass_add [simp]: "hasClass c (classList_add c' e) \<longleftrightarrow> c = c' \<or> hasClass c e"
  by (auto simp: hasClass_def classList_add_def)

lemma hasClass_remove [simp]: "hasClass c (classList_remove c' e) \<longleftrightarrow> c \<noteq> c' \<and> hasClass c e"
  by (auto simp: hasClass_def classList_remove_def)

lemma classList_add_fields [simp]:
  "el_id (classList_add c e) = el_id e" "href (classList_add c e) = href e"
  "el_value (classList_add c e) = el_value e" "display (classList_add c e) = display e"
  "innerHTML (classList_add c e) = innerHTML e" "textContent (classList_add c e) = textContent e"
  by (simp_all add: classList_add_def)

lemma classList_remove_fields [simp]:
  "el_id (classList_remove c e) = el_id e" "href (classList_remove c e) = href e"
  "el_value (classList_remove c e) = el_value e" "display (classList_remove c e) = display e"
  "innerHTML (classList_remove c e) = innerHTML e" "textContent (classList_remove c e) = textContent e"
  by (simp_all add: classList_remove_def)

subsection \<open>What showSection and showDashboard do to the document\<close>

lemma showSection_Returns:
  assumes k: "getElementById (sectionId @ ''-section'') (document st) = Some k"
  shows "\<exists>D. showSection sectionId linkEl st = Returns (st\<lparr>document := D\<rparr>) \<and>
           length D = length (document st) \<and>
           (\<forall>i<length D.
              el_id (D ! i) = el_id (document st ! i) \<and> href (D ! i) = href (document st ! i) \<and>
              el_value (D ! i) = el_value (document st ! i) \<and> display (D ! i) = display (document st ! i) \<and>
              innerHTML (D ! i) = innerHTML (document st ! i) \<and>
              textContent (D ! i) = textContent (document st ! i) \<and>
              (\<forall>c. c \<noteq> ''active'' \<longrightarrow> hasClass c (D ! i) = hasClass c (document st ! i)) \<and>
              (hasClass ''active'' (D ! i) \<longleftrightarrow>
                 i = k \<or> linkEl = Some i \<or>
                 (hasClass ''active'' (document st ! i) \<and> \<not> hasClass ''content-section'' (document st ! i)
                    \<and> \<not> hasClass ''sidebar-link'' (document st ! i))))"
proof -
  let ?doc = "document st"
  from getElementById_Some[OF k] have kl: "k < length ?doc" by simp
  define g where "g = (\<lambda>e. if hasClass ''sidebar-link'' e then classList_remove ''active'' e else e)
      \<circ> (\<lambda>e. if hasClass ''content-section'' e then classList_remove ''active'' e else e)"
  define d3 where "d3 = (map g ?doc)[k := classList_add ''active'' (map g ?doc ! k)]"
  define D where "D = (case linkEl of None \<Rightarrow> d3
     | Some j \<Rightarrow> if j < length d3 then d3[j := classList_add ''active'' (d3 ! j)] else d3)"
  have ret: "showSection sectionId linkEl st = Returns (st\<lparr>document := D\<rparr>)"
    using k by (cases linkEl) (simp_all add: showSection_def Let_def D_def d3_def g_def)
  have len: "length D = length ?doc"
    by (simp add: D_def d3_def split: option.splits)
  have g: "\<And>e. el_id (g e) = el_id e \<and> href (g e) = href e \<and> el_value (g e) = el_value e \<and>
      display (g e) = display e \<and> innerHTML (g e) = innerHTML e \<and> textContent (g e) = textContent e \<and>
      (\<forall>c. c \<noteq> ''active'' \<longrightarrow> hasClass c (g e) = hasClass c e) \<and>
      (hasClass ''active'' (g e) \<longleftrightarrow> hasClass ''active'' e \<and> \<not> hasClass ''content-section'' e
          \<and> \<not> hasClass ''sidebar-link'' e)"
    by (simp add: g_def)
  have d3: "\<And>i. i < length ?doc \<Longrightarrow> d3 ! i = (if i = k then classList_add ''active'' (g (?doc ! i)) else g (?doc ! i))"
    using kl by (simp add: d3_def nth_list_update)
  have D: "\<And>i. i < length ?doc \<Longrightarrow>
      D ! i = (if linkEl = Some i then classList_add ''active'' (d3 ! i) else d3 ! i)"
    by (cases linkEl) (auto simp: D_def d3_def nth_list_update)
  have "\<forall>i<length D.
              el_id (D ! i) = el_id (?doc ! i) \<and> href (D ! i) = href (?doc ! i) \<and>
              el_value (D ! i) = el_value (?doc ! i) \<and> display (D ! i) = display (?doc ! i) \<and>
              innerHTML (D ! i) = innerHTML (?doc ! i) \<and>
              textContent (D ! i) = textContent (?doc ! i) \<and>
              (\<forall>c. c \<noteq> ''active'' \<longrightarrow> hasClass c (D ! i) = hasClass c (?doc ! i)) \<and>
              (hasClass ''active'' (D ! i) \<longleftrightarrow>
                 i = k \<or> linkEl = Some i \<or>
                 (hasClass ''active'' (?doc ! i) \<and> \<not> hasClass ''content-section'' (?doc ! i)
                    \<and> \<not> hasClass ''sidebar-link'' (?doc ! i)))"
  proof (intro allI impI)
    fix i assume "i < length D"
    then have i: "i < length ?doc" using len by simp
    show "el_id (D ! i) = el_id (?doc ! i) \<and> href (D ! i) = href (?doc ! i) \<and>
              el_value (D ! i) = el_value (?doc ! i) \<and> display (D ! i) = display (?doc ! i) \<and>
              innerHTML (D ! i) = innerHTML (?doc ! i) \<and>
              textContent (D ! i) = textContent (?doc ! i) \<and>
              (\<forall>c. c \<noteq> ''active'' \<longrightarrow> hasClass c (D ! i) = hasClass c (?doc ! i)) \<and>
              (hasClass ''active'' (D ! i) \<longleftrightarrow>
                 i = k \<or> linkEl = Some i \<or>
                 (hasClass ''active'' (?doc ! i) \<and> \<not> hasClass ''content-section'' (?doc ! i)
                    \<and> \<not> hasClass ''sidebar-link'' (?doc ! i)))"
      using g[of "?doc ! i"] by (auto simp: D[OF i] d3[OF i])
  qed
  with ret len show ?thesis by blast
qed

lemma filter_upt_single:
  "k < n \<Longrightarrow> (\<forall>i<n. P i \<longleftrightarrow> i = k) \<Longrightarrow> filter P [0..<n] = [k]"
proof (induction n)
  case 0
  then show ?case by simp
next
  case (Suc n)
  show ?case
  proof (cases "k = n")
    case True
    with Suc.prems have "\<forall>i\<in>set [0..<n]. \<not> P i" "P n" by auto
    then have "filter P [0..<n] = []" "P n" by (simp_all add: filter_empty_conv)
    with True show ?thesis by simp
  next
    case False
    with Suc.prems have "k < n" "\<forall>i<n. P i \<longleftrightarrow> i = k" "\<not> P n" by auto
    with Suc.IH show ?thesis by simp
  qed
qed

lemma joinTexts_Inl: "joinTexts rs = Inl e \<Longrightarrow> Inl e \<in> set rs"
  by (induction rs rule: joinTexts.induct) (auto split: sum.splits)

lemma joinTexts_Inr_iff: "(\<exists>t. joinTexts rs = Inr t) \<longleftrightarrow> (\<forall>r\<in>set rs. \<exists>t. r = Inr t)"
  by (induction rs rule: joinTexts.induct) (auto split: sum.splits)

lemma ToString_error: "ToString P w = Inl e \<Longrightarrow> e = TypeError"
proof (induction P w rule: ToString.induct)
  case (5 P xs)
  from "5.prems" have "joinTexts (map (\<lambda>x. if x = JNull then Inr [] else ToString P x) xs) = Inl e"
    by simp
  from joinTexts_Inl[OF this] obtain x where
    x: "x \<in> set xs" "(if x = JNull then Inr [] else ToString P x) = Inl e"
    by auto
  then have "x \<noteq> JNull" "ToString P x = Inl e" by (auto split: if_splits)
  with "5.IH"[OF x(1)] show ?case by simp
qed (auto split: if_splits)

lemma ToString_convertible: "(\<exists>t. ToString P w = Inr t) \<longleftrightarrow> convertible w"
proof (induction P w rule: ToString.induct)
  case (5 P xs)
  have "(\<exists>t. ToString P (JArray xs) = Inr t) \<longleftrightarrow>
        (\<forall>r\<in>set (map (\<lambda>x. if x = JNull then Inr [] else ToString P x) xs). \<exists>t. r = Inr t)"
    by (simp only: ToString.simps joinTexts_Inr_iff)
  also have "\<dots> \<longleftrightarrow>
        (\<forall>x\<in>set xs. \<exists>t. (if x = JNull then Inr [] else ToString P x) = Inr t)"
    unfolding set_map by blast
  also have "\<dots> \<longleftrightarrow> (\<forall>x\<in>set xs. convertible x)"
    using "5.IH" by (auto split: if_splits)
  finally show ?case by (simp add: list_all_iff)
qed auto

lemma textOf_string [simp]: "textOf P (Some (JString s)) = Inr s"
  by (simp add: textOf_def)

lemma textOf_cases:
  "textOf P x = Inr [] \<or> (\<exists>w. x = Some w \<and> w \<noteq> JNull \<and> textOf P x = ToString P w)"
proof (cases x)
  case None
  then show ?thesis by (simp add: textOf_def)
next
  case (Some w)
  then show ?thesis by (cases w) (simp_all add: textOf_def)
qed

lemma textOf_error: "textOf P x = Inl e \<Longrightarrow> e = TypeError"
  using textOf_cases[of P x] ToString_error[of P _ e] by auto

lemma textOf_convertible:
  "(\<exists>t. textOf P x = Inr t) \<longleftrightarrow> (case x of None \<Rightarrow> True | Some w \<Rightarrow> convertible w)"
proof (cases x)
  case None
  then show ?thesis by (simp add: textOf_def)
next
  case (Some w)
  show ?thesis
  proof (cases "w = JNull")
    case True
    with Some show ?thesis by (simp add: textOf_def)
  next
    case False
    with Some have "textOf P x = ToString P w"
      by (cases w) (simp_all add: textOf_def)
    with Some show ?thesis by (simp add: ToString_convertible)
  qed
qed

lemma hasClass_update [simp]:
  "hasClass c (e\<lparr>display := x\<rparr>) = hasClass c e"
  "hasClass c (e\<lparr>textContent := x\<rparr>) = hasClass c e"
  "hasClass c (e\<lparr>innerHTML := x\<rparr>) = hasClass c e"
  "hasClass c (e\<lparr>el_value := x\<rparr>) = hasClass c e"
  by (simp_all add: hasClass_def)

lemma showDashboard_Returns:
  assumes a: "getElementById ''authScreen'' (document st) = Some a"
      and d: "getElementById ''dashboard'' (document st) = Some d"
      and n: "getElementById ''displayUserName'' (document st) = Some n"
      and r: "getElementById ''displayUserRole'' (document st) = Some r"
      and u: "getElementById ''userInitial'' (document st) = Some u"
      and s: "getElementById ''dashboard-section'' (document st) = Some s"
      and nm: "getProperty (currentUser st) ''name'' = Inr (Some (JString nm))"
      and rl: "getProperty (currentUser st) ''role'' = Inr rl"
      and rt: "textOf P rl = Inr rt"
  shows "\<exists>D. showDashboard P st = Returns (st\<lparr>document := D\<rparr>) \<and>
           length D = length (document st) \<and>
           (\<forall>i<length D.
              el_id (D ! i) = el_id (document st ! i) \<and> href (D ! i) = href (document st ! i) \<and>
              el_value (D ! i) = el_value (document st ! i) \<and>
              innerHTML (D ! i) = innerHTML (document st ! i) \<and>
              display (D ! i) = (if i = a then ''none'' else display (document st ! i)) \<and>
              textContent (D ! i) =
                (if i = n then nm else if i = r then rt
                 else if i = u then toUpperCase P (take 1 nm) else textContent (document st ! i)) \<and>
              (\<forall>c. c \<noteq> ''active'' \<longrightarrow> hasClass c (D ! i) = hasClass c (document st ! i)) \<and>
              (hasClass ''active'' (D ! i) \<longleftrightarrow>
                 i = s \<or>
                 ((i = d \<or> hasClass ''active'' (document st ! i)) \<and>
                    \<not> hasClass ''content-section'' (document st ! i) \<and>
                    \<not> hasClass ''sidebar-link'' (document st ! i))))"
proof -
  let ?doc = "document st"
  note ids = a d n r u s
  have lens: "a < length ?doc" "d < length ?doc" "n < length ?doc" "r < length ?doc"
       "u < length ?doc" "s < length ?doc"
    using ids[THEN getElementById_Some] by simp_all
  have dist: "a \<noteq> d" "a \<noteq> n" "a \<noteq> r" "a \<noteq> u" "d \<noteq> n" "d \<noteq> r" "d \<noteq> u" "n \<noteq> r" "n \<noteq> u" "r \<noteq> u"
    using ids[THEN getElementById_Some] by auto
  define d5 where "d5 = ?doc[a := (?doc ! a)\<lparr>display := ''none''\<rparr>,
      d := classList_add ''active'' (?doc ! d),
      n := (?doc ! n)\<lparr>textContent := nm\<rparr>,
      r := (?doc ! r)\<lparr>textContent := rt\<rparr>,
      u := (?doc ! u)\<lparr>textContent := toUpperCase P (take 1 nm)\<rparr>]"
  have step: "showDashboard P st = showSection ''dashboard'' None (st\<lparr>document := d5\<rparr>)"
    using ids nm rl rt lens dist
    by (simp add: showDashboard_def andThen_def onElement_def setUserText_def setUserInitial_def d5_def)
  have s5: "getElementById (''dashboard'' @ ''-section'') (document (st\<lparr>document := d5\<rparr>)) = Some s"
    using s lens dist by (simp add: d5_def nth_list_update)
  from showSection_Returns[OF s5, of None] obtain D where
    D: "showSection ''dashboard'' None (st\<lparr>document := d5\<rparr>) = Returns (st\<lparr>document := d5\<rparr>\<lparr>document := D\<rparr>) \<and>
           length D = length (document (st\<lparr>document := d5\<rparr>)) \<and>
           (\<forall>i<length D.
              el_id (D ! i) = el_id (document (st\<lparr>document := d5\<rparr>) ! i) \<and> href (D ! i) = href (document (st\<lparr>document := d5\<rparr>) ! i) \<and>
              el_value (D ! i) = el_value (document (st\<lparr>document := d5\<rparr>) ! i) \<and> display (D ! i) = display (document (st\<lparr>document := d5\<rparr>) ! i) \<and>
              innerHTML (D ! i) = innerHTML (document (st\<lparr>document := d5\<rparr>) ! i) \<and>
              textContent (D ! i) = textContent (document (st\<lparr>document := d5\<rparr>) ! i) \<and>
              (\<forall>c. c \<noteq> ''active'' \<longrightarrow> hasClass c (D ! i) = hasClass c (document (st\<lparr>document := d5\<rparr>) ! i)) \<and>
              (hasClass ''active'' (D ! i) \<longleftrightarrow>
                 i = s \<or> None = Some i \<or>
                 (hasClass ''active'' (document (st\<lparr>document := d5\<rparr>) ! i) \<and> \<not> hasClass ''content-section'' (document (st\<lparr>document := d5\<rparr>) ! i)
                    \<and> \<not> hasClass ''sidebar-link'' (document (st\<lparr>document := d5\<rparr>) ! i))))" ..
  have ret: "showDashboard P st = Returns (st\<lparr>document := D\<rparr>)"
    using step D by simp
  have len: "length D = length ?doc"
    using D by (simp add: d5_def)
  have d5: "d5 ! i = (if i = a then (?doc ! i)\<lparr>display := ''none''\<rparr>
                      else if i = d then classList_add ''active'' (?doc ! i)
                      else if i = n then (?doc ! i)\<lparr>textContent := nm\<rparr>
                      else if i = r then (?doc ! i)\<lparr>textContent := rt\<rparr>
                      else if i = u then (?doc ! i)\<lparr>textContent := toUpperCase P (take 1 nm)\<rparr>
                      else ?doc ! i)" if "i < length ?doc" for i
    using that lens dist by (auto simp: d5_def nth_list_update)
  have pt: "el_id (D ! i) = el_id (?doc ! i) \<and> href (D ! i) = href (?doc ! i) \<and>
              el_value (D ! i) = el_value (?doc ! i) \<and>
              innerHTML (D ! i) = innerHTML (?doc ! i) \<and>
              display (D ! i) = (if i = a then ''none'' else display (?doc ! i)) \<and>
              textContent (D ! i) =
                (if i = n then nm else if i = r then rt
                 else if i = u then toUpperCase P (take 1 nm) else textContent (?doc ! i)) \<and>
              (\<forall>c. c \<noteq> ''active'' \<longrightarrow> hasClass c (D ! i) = hasClass c (?doc ! i)) \<and>
              (hasClass ''active'' (D ! i) \<longleftrightarrow>
                 i = s \<or>
                 ((i = d \<or> hasClass ''active'' (?doc ! i)) \<and>
                    \<not> hasClass ''content-section'' (?doc ! i) \<and>
                    \<not> hasClass ''sidebar-link'' (?doc ! i)))" if i: "i < length D" for i
  proof -
    from i len have i': "i < length ?doc" by simp
    from D i have Di: "el_id (D ! i) = el_id (d5 ! i) \<and> href (D ! i) = href (d5 ! i) \<and>
              el_value (D ! i) = el_value (d5 ! i) \<and> display (D ! i) = display (d5 ! i) \<and>
              innerHTML (D ! i) = innerHTML (d5 ! i) \<and>
              textContent (D ! i) = textContent (d5 ! i) \<and>
              (\<forall>c. c \<noteq> ''active'' \<longrightarrow> hasClass c (D ! i) = hasClass c (d5 ! i)) \<and>
              (hasClass ''active'' (D ! i) \<longleftrightarrow>
                 i = s \<or>
                 (hasClass ''active'' (d5 ! i) \<and> \<not> hasClass ''content-section'' (d5 ! i)
                    \<and> \<not> hasClass ''sidebar-link'' (d5 ! i)))"
      by simp
    have d5i: "el_id (d5 ! i) = el_id (?doc ! i) \<and> href (d5 ! i) = href (?doc ! i) \<and>
              el_value (d5 ! i) = el_value (?doc ! i) \<and>
              innerHTML (d5 ! i) = innerHTML (?doc ! i) \<and>
              display (d5 ! i) = (if i = a then ''none'' else display (?doc ! i)) \<and>
              textContent (d5 ! i) =
                (if i = n then nm else if i = r then rt
                 else if i = u then toUpperCase P (take 1 nm) else textContent (?doc ! i)) \<and>
              (\<forall>c. hasClass c (d5 ! i) \<longleftrightarrow> (c = ''active'' \<and> i = d) \<or> hasClass c (?doc ! i))"
      using dist by (simp add: d5[OF i'])
    show ?thesis
      using Di d5i by auto
  qed
  from ret len pt show ?thesis by blast
qed

text \<open>
  For an id that names no element of the page, \<open>showSection\<close> throws after it has
  taken the active class from every content section and every sidebar link.
\<close>

lemma showSection_unknown:
  assumes none: "getElementById (sectionId @ ''-section'') (document st) = None"
  shows "\<exists>st'. showSection sectionId linkEl st = Throws TypeError st' \<and>
           activeOf ''content-section'' (document st') = [] \<and>
           activeOf ''sidebar-link'' (document st') = []"
proof -
  define g where "g = (\<lambda>e. if hasClass ''sidebar-link'' e then classList_remove ''active'' e else e)
      \<circ> (\<lambda>e. if hasClass ''content-section'' e then classList_remove ''active'' e else e)"
  have ret: "showSection sectionId linkEl st = Throws TypeError (st\<lparr>document := map g (document st)\<rparr>)"
    using none by (simp add: showSection_def Let_def g_def)
  have g: "\<And>e. \<not> (hasClass ''content-section'' (g e) \<and> hasClass ''active'' (g e)) \<and>
               \<not> (hasClass ''sidebar-link'' (g e) \<and> hasClass ''active'' (g e))"
    by (simp add: g_def)
  have "activeOf ''content-section'' (map g (document st)) = []"
       "activeOf ''sidebar-link'' (map g (document st)) = []"
    using g by (simp_all add: activeOf_def filter_empty_conv)
  with ret show ?thesis by simp
qed

subsection \<open>What the operations do to the rest of the state\<close>

lemma sessionOf_document [simp]: "sessionOf (st\<lparr>document := D\<rparr>) = sessionOf st"
  by (simp add: sessionOf_def)

lemma showSection_session [simp]: "sessionOf (stateOf (showSection sectionId linkEl st)) = sessionOf st"
  by (simp add: showSection_def Let_def split: option.splits)

lemma onElement_session [simp]: "sessionOf (stateOf (onElement i f st)) = sessionOf st"
  by (simp add: onElement_def split: option.splits)

lemma showError_session [simp]: "sessionOf (stateOf (showError errorDiv msg st)) = sessionOf st"
  by (simp add: showError_def split: option.splits)

lemma setUserText_session [simp]: "sessionOf (stateOf (setUserText P i prop st)) = sessionOf st"
  by (simp add: setUserText_def split: option.splits sum.splits)

lemma setUserInitial_session [simp]: "sessionOf (stateOf (setUserInitial P st)) = sessionOf st"
  by (simp add: setUserInitial_def split: option.splits sum.splits jsvalue.splits)

lemma andThen_session:
  assumes "sessionOf (stateOf r) = s" and "\<And>st. sessionOf (stateOf (f st)) = sessionOf st"
  shows "sessionOf (stateOf (andThen r f)) = s"
  using assms by (cases r) (simp_all add: andThen_def)

lemma showDashboard_session [simp]: "sessionOf (stateOf (showDashboard P st)) = sessionOf st"
  unfolding showDashboard_def
  by (rule andThen_session, simp)+ simp

lemma handleLogout_session:
  "sessionOf (stateOf (handleLogout st)) = (users st, JNull, (localStorage st)(''currentUser'' := None))"
  unfolding handleLogout_def
proof (rule andThen_session)
  show "sessionOf (stateOf (onElement ''dashboard'' (classList_remove ''active'')
            (st\<lparr>currentUser := JNull, localStorage := (localStorage st)(''currentUser'' := None)\<rparr>))) =
        (users st, JNull, (localStorage st)(''currentUser'' := None))"
    unfolding onElement_session by (simp add: sessionOf_def)
next
  fix st'
  show "sessionOf (stateOf (andThen (onElement ''authScreen'' (\<lambda>e. e\<lparr>display := ''flex''\<rparr>) st') (\<lambda>st.
     andThen (onElement ''loginEmail'' (\<lambda>e. e\<lparr>el_value := []\<rparr>) st) (\<lambda>st.
     onElement ''loginPassword'' (\<lambda>e. e\<lparr>el_value := []\<rparr>) st)))) = sessionOf st'"
    by (rule andThen_session, simp, rule andThen_session, simp, simp)
qed

lemma toggle_session [simp]:
  "sessionOf (stateOf (toggleToRegister st)) = sessionOf st"
  "sessionOf (stateOf (toggleToLogin st)) = sessionOf st"
  unfolding toggleToRegister_def toggleToLogin_def
  by (rule andThen_session, simp, simp)+

subsection \<open>The page\<close>

lemma pageOk_id:
  "pageOk doc \<Longrightarrow> i \<in> set scriptIds \<Longrightarrow> \<exists>k. getElementById i doc = Some k"
  by (auto simp: pageOk_def list_all_iff)

lemma elementById_ids:
  "map el_id D = map el_id doc \<Longrightarrow> getElementById i doc = Some k \<Longrightarrow> elementById i D = Some (D ! k)"
  using getElementById_ids[of D doc i] by (simp add: elementById_def)

lemma pageOk_cong:
  assumes len: "length D = length doc"
      and pt: "\<And>i. i < length doc \<Longrightarrow> el_id (D ! i) = el_id (doc ! i) \<and>
                 hasClass ''content-section'' (D ! i) = hasClass ''content-section'' (doc ! i) \<and>
                 hasClass ''sidebar-link'' (D ! i) = hasClass ''sidebar-link'' (doc ! i)"
  shows "pageOk D = pageOk doc"
proof -
  have ids: "map el_id D = map el_id doc"
    using len pt by (simp add: list_eq_iff_nth_eq)
  show ?thesis
    unfolding pageOk_def getElementById_ids[OF ids]
    using len pt by (simp add: list_all_length)
qed

lemma getProperty_userObject [simp]:
  "getProperty (userObject u) ''name'' = Inr (Some (JString (name u)))"
  "getProperty (userObject u) ''role'' = Inr (Some (JString (role u)))"
  by (simp_all add: getProperty_def userObject_def)

lemma showDashboard_shown:
  assumes page: "pageOk (document st)"
      and nm: "getProperty (currentUser st) ''name'' = Inr (Some (JString nm))"
      and rl: "getProperty (currentUser st) ''role'' = Inr rl"
      and rt: "textOf P rl = Inr rt"
  shows "\<exists>st'. showDashboard P st = Returns st' \<and> sessionOf st' = sessionOf st \<and>
           pageOk (document st') \<and>
           map el_id (document st') = map el_id (document st) \<and>
           map el_value (document st') = map el_value (document st) \<and>
           map innerHTML (document st') = map innerHTML (document st) \<and>
           map href (document st') = map href (document st) \<and>
           (\<forall>i<length (document st). \<forall>c. c \<noteq> ''active'' \<longrightarrow>
              hasClass c (document st' ! i) = hasClass c (document st ! i)) \<and>
           dashboardShown (document st') \<and> sectionActive ''dashboard'' (document st') \<and>
           map_option textContent (elementById ''displayUserName'' (document st')) = Some nm \<and>
           map_option textContent (elementById ''displayUserRole'' (document st')) = Some rt \<and>
           map_option textContent (elementById ''userInitial'' (document st')) = Some (toUpperCase P (take 1 nm))"
proof -
  let ?doc = "document st"
  from pageOk_id[OF page] obtain a d n r u s where
    a: "getElementById ''authScreen'' ?doc = Some a" and
    d: "getElementById ''dashboard'' ?doc = Some d" and
    n: "getElementById ''displayUserName'' ?doc = Some n" and
    r: "getElementById ''displayUserRole'' ?doc = Some r" and
    u: "getElementById ''userInitial'' ?doc = Some u" and
    s: "getElementById ''dashboard-section'' ?doc = Some s"
    unfolding scriptIds_def by (meson list.set_intros)
  note ids = a d n r u s
  have dist: "n \<noteq> r" "n \<noteq> u" "r \<noteq> u"
    using ids[THEN getElementById_Some] by auto
  from showDashboard_Returns[OF a d n r u s nm rl rt] obtain D where
    D: "showDashboard P st = Returns (st\<lparr>document := D\<rparr>) \<and>
           length D = length (document st) \<and>
           (\<forall>i<length D.
              el_id (D ! i) = el_id (document st ! i) \<and> href (D ! i) = href (document st ! i) \<and>
              el_value (D ! i) = el_value (document st ! i) \<and>
              innerHTML (D ! i) = innerHTML (document st ! i) \<and>
              display (D ! i) = (if i = a then ''none'' else display (document st ! i)) \<and>
              textContent (D ! i) =
                (if i = n then nm else if i = r then rt
                 else if i = u then toUpperCase P (take 1 nm) else textContent (document st ! i)) \<and>
              (\<forall>c. c \<noteq> ''active'' \<longrightarrow> hasClass c (D ! i) = hasClass c (document st ! i)) \<and>
              (hasClass ''active'' (D ! i) \<longleftrightarrow>
                 i = s \<or>
                 ((i = d \<or> hasClass ''active'' (document st ! i)) \<and>
                    \<not> hasClass ''content-section'' (document st ! i) \<and>
                    \<not> hasClass ''sidebar-link'' (document st ! i))))" ..
  from D have ret: "showDashboard P st = Returns (st\<lparr>document := D\<rparr>)"
    and len: "length D = length ?doc" by simp_all
  have lens: "a < length D" "d < length D" "n < length D" "r < length D" "u < length D" "s < length D"
    using ids[THEN getElementById_Some] len by simp_all
  have ids': "map el_id D = map el_id ?doc" and vals: "map el_value D = map el_value ?doc"
    and htmls: "map innerHTML D = map innerHTML ?doc" and hrefs: "map href D = map href ?doc"
    using D by (simp_all add: list_eq_iff_nth_eq)
  have cls: "\<forall>i<length ?doc. \<forall>c. c \<noteq> ''active'' \<longrightarrow> hasClass c (D ! i) = hasClass c (?doc ! i)"
    using D by simp
  have ok: "pageOk D"
  proof -
    have "pageOk D = pageOk ?doc"
      by (rule pageOk_cong[OF len]) (use D len in simp)
    with page show ?thesis by simp
  qed
  have dd: "\<not> hasClass ''content-section'' (?doc ! d) \<and> \<not> hasClass ''sidebar-link'' (?doc ! d)"
    using page getElementById_Some[OF d] by (auto simp: pageOk_def list_all_length)
  have shown: "dashboardShown D"
    using D lens dd by (simp add: dashboardShown_def elementById_ids[OF ids' a] elementById_ids[OF ids' d])
  have act: "sectionActive ''dashboard'' D"
    using D lens s by (simp add: sectionActive_def elementById_ids[OF ids'])
  have texts: "map_option textContent (elementById ''displayUserName'' D) = Some nm"
       "map_option textContent (elementById ''displayUserRole'' D) = Some rt"
       "map_option textContent (elementById ''userInitial'' D) = Some (toUpperCase P (take 1 nm))"
    using D lens dist by (simp_all add: elementById_ids[OF ids' n] elementById_ids[OF ids' r] elementById_ids[OF ids' u])
  show ?thesis
    using ret ok ids' vals htmls hrefs cls shown act texts by simp
qed

lemma sessionOf_eq:
  "sessionOf st' = sessionOf st \<longleftrightarrow>
     users st' = users st \<and> currentUser st' = currentUser st \<and> localStorage st' = localStorage st"
  by (auto simp: sessionOf_def)

lemma showError_shown:
  assumes k: "getElementById i (document st) = Some k"
  shows "\<exists>st'. showError (getElementById i (document st)) msg st = Returns st' \<and>
           sessionOf st' = sessionOf st \<and>
           document st' = (document st)[k := (document st ! k)\<lparr>innerHTML := errorMessage msg\<rparr>] \<and>
           map_option innerHTML (elementById i (document st')) = Some (errorMessage msg)"
  using k getElementById_Some[OF k] by (simp add: showError_def elementById_def)

subsection \<open>The handlers\<close>

lemma handleLogin_found:
  assumes page: "pageOk (document st)"
      and e: "inputValue ''loginEmail'' (document st) = Some e"
      and p: "inputValue ''loginPassword'' (document st) = Some p"
      and u: "find (\<lambda>u. email u = e \<and> password u = p) (users st) = Some u"
  shows "\<exists>st'. handleLogin P st = Returns st' \<and>
           users st' = users st \<and> currentUser st' = userObject u \<and>
           localStorage st' = (localStorage st)(''currentUser'' \<mapsto> JSON_stringify P (userObject u)) \<and>
           pageOk (document st') \<and>
           map el_id (document st') = map el_id (document st) \<and>
           map el_value (document st') = map el_value (document st) \<and>
           map innerHTML (document st') = map innerHTML (document st) \<and>
           dashboardShown (document st') \<and> sectionActive ''dashboard'' (document st') \<and>
           map_option textContent (elementById ''displayUserName'' (document st')) = Some (name u) \<and>
           map_option textContent (elementById ''displayUserRole'' (document st')) = Some (role u)"
proof -
  let ?st2 = "st\<lparr>currentUser := userObject u,
                   localStorage := (localStorage st)(''currentUser'' \<mapsto> JSON_stringify P (userObject u))\<rparr>"
  have call: "handleLogin P st = showDashboard P ?st2"
    using e p u by (simp add: handleLogin_def)
  have page2: "pageOk (document ?st2)" using page by simp
  from showDashboard_shown[of ?st2 "name u" "Some (JString (role u))" P, OF page2]
  obtain st' where st': "showDashboard P ?st2 = Returns st'" "sessionOf st' = sessionOf ?st2"
       "pageOk (document st')"
       "map el_id (document st') = map el_id (document st)"
       "map el_value (document st') = map el_value (document st)"
       "map innerHTML (document st') = map innerHTML (document st)"
       "dashboardShown (document st')" "sectionActive ''dashboard'' (document st')"
       "map_option textContent (elementById ''displayUserName'' (document st')) = Some (name u)"
       "map_option textContent (elementById ''displayUserRole'' (document st')) = Some (role u)"
    by auto
  from st'(2) have "users st' = users st" "currentUser st' = userObject u"
       "localStorage st' = (localStorage st)(''currentUser'' \<mapsto> JSON_stringify P (userObject u))"
    by (simp_all add: sessionOf_eq)
  with call st' show ?thesis by simp
qed

lemma showSection_effects:
  assumes sec: "getElementById (sectionId @ ''-section'') (document st) = Some k"
      and cs: "hasClass ''content-section'' (document st ! k)"
      and dis: "list_all (\<lambda>e. \<not> (hasClass ''content-section'' e \<and> hasClass ''sidebar-link'' e)) (document st)"
      and link: "\<forall>j. linkEl = Some j \<and> j < length (document st) \<longrightarrow>
                   \<not> hasClass ''content-section'' (document st ! j)"
  shows "\<exists>st'. showSection sectionId linkEl st = Returns st' \<and> sessionOf st' = sessionOf st \<and>
           length (document st') = length (document st) \<and>
           map el_id (document st') = map el_id (document st) \<and>
           map href (document st') = map href (document st) \<and>
           map el_value (document st') = map el_value (document st) \<and>
           map display (document st') = map display (document st) \<and>
           map innerHTML (document st') = map innerHTML (document st) \<and>
           map textContent (document st') = map textContent (document st) \<and>
           (\<forall>i<length (document st). \<forall>c. c \<noteq> ''active'' \<longrightarrow>
              hasClass c (document st' ! i) = hasClass c (document st ! i)) \<and>
           (\<forall>i<length (document st).
              \<not> hasClass ''content-section'' (document st ! i) \<and> \<not> hasClass ''sidebar-link'' (document st ! i) \<and>
              linkEl \<noteq> Some i \<longrightarrow>
              hasClass ''active'' (document st' ! i) = hasClass ''active'' (document st ! i)) \<and>
           activeOf ''content-section'' (document st') = [k] \<and>
           activeOf ''sidebar-link'' (document st') =
             (case linkEl of None \<Rightarrow> []
              | Some j \<Rightarrow> if j < length (document st) \<and> hasClass ''sidebar-link'' (document st ! j)
                          then [j] else [])"
proof -
  let ?doc = "document st"
  from showSection_Returns[OF sec, of linkEl] obtain D where
    D: "showSection sectionId linkEl st = Returns (st\<lparr>document := D\<rparr>) \<and>
           length D = length (document st) \<and>
           (\<forall>i<length D.
              el_id (D ! i) = el_id (document st ! i) \<and> href (D ! i) = href (document st ! i) \<and>
              el_value (D ! i) = el_value (document st ! i) \<and> display (D ! i) = display (document st ! i) \<and>
              innerHTML (D ! i) = innerHTML (document st ! i) \<and>
              textContent (D ! i) = textContent (document st ! i) \<and>
              (\<forall>c. c \<noteq> ''active'' \<longrightarrow> hasClass c (D ! i) = hasClass c (document st ! i)) \<and>
              (hasClass ''active'' (D ! i) \<longleftrightarrow>
                 i = k \<or> linkEl = Some i \<or>
                 (hasClass ''active'' (document st ! i) \<and> \<not> hasClass ''content-section'' (document st ! i)
                    \<and> \<not> hasClass ''sidebar-link'' (document st ! i))))" ..
  from D have ret: "showSection sectionId linkEl st = Returns (st\<lparr>document := D\<rparr>)"
    and len: "length D = length ?doc" by simp_all
  have pt: "el_id (D ! i) = el_id (?doc ! i) \<and>
              hasClass ''content-section'' (D ! i) = hasClass ''content-section'' (?doc ! i) \<and>
              hasClass ''sidebar-link'' (D ! i) = hasClass ''sidebar-link'' (?doc ! i) \<and>
              (hasClass ''active'' (D ! i) \<longleftrightarrow>
                 i = k \<or> linkEl = Some i \<or>
                 (hasClass ''active'' (?doc ! i) \<and> \<not> hasClass ''content-section'' (?doc ! i)
                    \<and> \<not> hasClass ''sidebar-link'' (?doc ! i)))" if "i < length D" for i
    using D that by simp
  from getElementById_Some[OF sec] have kl: "k < length D" using len by simp
  have disj: "\<And>i. i < length D \<Longrightarrow> \<not> (hasClass ''content-section'' (?doc ! i) \<and> hasClass ''sidebar-link'' (?doc ! i))"
    using dis len by (simp add: list_all_length)
  have maps: "map el_id D = map el_id ?doc" "map href D = map href ?doc"
      "map el_value D = map el_value ?doc" "map display D = map display ?doc"
      "map innerHTML D = map innerHTML ?doc" "map textContent D = map textContent ?doc"
    using D by (simp_all add: list_eq_iff_nth_eq)
  have cls: "\<forall>i<length ?doc. \<forall>c. c \<noteq> ''active'' \<longrightarrow> hasClass c (D ! i) = hasClass c (?doc ! i)"
    using D by simp
  have keep: "\<forall>i<length ?doc.
              \<not> hasClass ''content-section'' (?doc ! i) \<and> \<not> hasClass ''sidebar-link'' (?doc ! i) \<and>
              linkEl \<noteq> Some i \<longrightarrow>
              hasClass ''active'' (D ! i) = hasClass ''active'' (?doc ! i)"
  proof (intro allI impI)
    fix i assume i: "i < length ?doc"
      and no: "\<not> hasClass ''content-section'' (?doc ! i) \<and> \<not> hasClass ''sidebar-link'' (?doc ! i) \<and>
              linkEl \<noteq> Some i"
    from i len have "i < length D" by simp
    from pt[OF this] no cs show "hasClass ''active'' (D ! i) = hasClass ''active'' (?doc ! i)"
      by auto
  qed
  have c1: "\<forall>i<length D. (hasClass ''content-section'' (D ! i) \<and> hasClass ''active'' (D ! i)) \<longleftrightarrow> i = k"
  proof (intro allI impI)
    fix i assume i: "i < length D"
    show "(hasClass ''content-section'' (D ! i) \<and> hasClass ''active'' (D ! i)) \<longleftrightarrow> i = k"
      using pt[OF i] disj[OF i] cs link i len by auto
  qed
  have c2: "\<forall>i<length D. (hasClass ''sidebar-link'' (D ! i) \<and> hasClass ''active'' (D ! i)) \<longleftrightarrow>
      (linkEl = Some i \<and> hasClass ''sidebar-link'' (?doc ! i))"
  proof (intro allI impI)
    fix i assume i: "i < length D"
    show "(hasClass ''sidebar-link'' (D ! i) \<and> hasClass ''active'' (D ! i)) \<longleftrightarrow>
      (linkEl = Some i \<and> hasClass ''sidebar-link'' (?doc ! i))"
      using pt[OF i] disj[OF i] cs by auto
  qed
  have a1: "activeOf ''content-section'' D = [k]"
    unfolding activeOf_def by (rule filter_upt_single[OF kl c1])
  have a2: "activeOf ''sidebar-link'' D =
      (case linkEl of None \<Rightarrow> []
       | Some j \<Rightarrow> if j < length ?doc \<and> hasClass ''sidebar-link'' (?doc ! j) then [j] else [])"
  proof (cases "\<exists>j. linkEl = Some j \<and> j < length ?doc \<and> hasClass ''sidebar-link'' (?doc ! j)")
    case True
    then obtain j where j: "linkEl = Some j" "j < length ?doc" "hasClass ''sidebar-link'' (?doc ! j)"
      by blast
    from j len have jl: "j < length D" by simp
    from c2 j have "\<forall>i<length D. (hasClass ''sidebar-link'' (D ! i) \<and> hasClass ''active'' (D ! i)) \<longleftrightarrow> i = j"
      by auto
    from filter_upt_single[OF jl this] j show ?thesis unfolding activeOf_def by simp
  next
    case False
    with c2 len have "\<forall>i<length D. \<not> (hasClass ''sidebar-link'' (D ! i) \<and> hasClass ''active'' (D ! i))"
      by auto
    then have "activeOf ''sidebar-link'' D = []"
      unfolding activeOf_def by (simp add: filter_empty_conv)
    with False show ?thesis by (cases linkEl) auto
  qed
  show ?thesis
    unfolding ret using len maps cls keep a1 a2 by simp
qed

lemma handleRegister_cases:
  assumes n: "inputValue ''registerName'' (document st) = Some n"
      and e: "inputValue ''registerEmail'' (document st) = Some e"
      and p: "inputValue ''registerPassword'' (document st) = Some p"
      and t: "inputValue ''registerUserType'' (document st) = Some t"
  shows "handleRegister P st =
     (if length p < 6
      then showError (getElementById ''registerError'' (document st)) ''Password must be at least 6 characters'' st
      else if (\<exists>u. u \<in> set (users st) \<and> email u = e)
      then showError (getElementById ''registerError'' (document st)) ''Email already registered'' st
      else showDashboard P
             (st\<lparr>users := users st @ [\<lparr>id' = length (users st) + 1, name = n, email = e, password = p,
                                       userType = t, role = roleOf t\<rparr>],
                 currentUser := userObject \<lparr>id' = length (users st) + 1, name = n, email = e,
                                       password = p, userType = t, role = roleOf t\<rparr>,
                 localStorage := (localStorage st)(''currentUser'' \<mapsto> JSON_stringify P
                    (userObject \<lparr>id' = length (users st) + 1, name = n, email = e,
                                       password = p, userType = t, role = roleOf t\<rparr>))\<rparr>))"
proof (cases "find (\<lambda>u. email u = e) (users st)")
  case None
  then have ex: "\<not> (\<exists>u. u \<in> set (users st) \<and> email u = e)"
    by (auto simp: find_None_iff)
  show ?thesis
    unfolding if_not_P[OF ex] using None n e p t by (simp add: handleRegister_def Let_def)
next
  case (Some u)
  then have ex: "\<exists>u. u \<in> set (users st) \<and> email u = e"
    by (auto simp: find_Some_iff intro: nth_mem)
  show ?thesis
    unfolding if_P[OF ex] using Some n e p t by (simp add: handleRegister_def Let_def)
qed

lemma hasStringName_getProperty:
  "hasStringName v \<longleftrightarrow> (\<exists>nm. getProperty v ''name'' = Inr (Some (JString nm)))"
  by (auto simp: hasStringName_def getProperty_def isString_def split: jsvalue.splits option.splits)

lemma getProperty_role:
  "hasStringName v \<Longrightarrow> \<exists>rl. getProperty v ''role'' = Inr rl"
  by (auto simp: hasStringName_def getProperty_def split: jsvalue.splits)

lemma isUserRecord_hasStringName: "isUserRecord v \<Longrightarrow> hasStringName v"
  by (auto simp: isUserRecord_def hasStringName_def split: jsvalue.splits)

lemma restorable_iff:
  "restorable v \<longleftrightarrow>
     hasStringName v \<and> (\<exists>rl rt. getProperty v ''role'' = Inr rl \<and> textOf P rl = Inr rt)"
proof (cases v)
  case (JObject kvs)
  have "(\<exists>rl rt. getProperty v ''role'' = Inr rl \<and> textOf P rl = Inr rt) \<longleftrightarrow>
        (\<exists>rt. textOf P (map_of kvs ''role'') = Inr rt)"
    using JObject by (simp add: getProperty_def)
  then show ?thesis
    using JObject by (simp add: restorable_def hasStringName_def textOf_convertible)
qed (simp_all add: restorable_def hasStringName_def)

lemma isString_iff: "isString x \<longleftrightarrow> (\<exists>s. x = Some (JString s))"
  by (auto simp: isString_def split: option.splits jsvalue.splits)

lemma restorable_hasStringName: "restorable v \<Longrightarrow> hasStringName v"
  by (auto simp: restorable_def hasStringName_def split: jsvalue.splits)

lemma isUserRecord_restorable: "isUserRecord v \<Longrightarrow> restorable v"
  by (cases v) (auto simp: isUserRecord_def restorable_def isString_iff)

lemma showDashboard_raises:
  assumes page: "pageOk (document st)"
      and no: "\<not> restorable (currentUser st)"
  shows "\<exists>st'. showDashboard P st = Throws TypeError st' \<and> sessionOf st' = sessionOf st"
proof -
  let ?doc = "document st"
  from pageOk_id[OF page] obtain a d n r u where
    a: "getElementById ''authScreen'' ?doc = Some a" and
    d: "getElementById ''dashboard'' ?doc = Some d" and
    n: "getElementById ''displayUserName'' ?doc = Some n" and
    r: "getElementById ''displayUserRole'' ?doc = Some r" and
    u: "getElementById ''userInitial'' ?doc = Some u"
    unfolding scriptIds_def by (meson list.set_intros)
  note ids = a d n r u
  have lens: "a < length ?doc" "d < length ?doc" "n < length ?doc" "r < length ?doc" "u < length ?doc"
    using ids[THEN getElementById_Some] by simp_all
  have dist: "a \<noteq> d" "a \<noteq> n" "a \<noteq> r" "a \<noteq> u" "d \<noteq> n" "d \<noteq> r" "d \<noteq> u" "n \<noteq> r" "n \<noteq> u" "r \<noteq> u"
    using ids[THEN getElementById_Some] by auto
  show ?thesis
  proof (cases "getProperty (currentUser st) ''name''")
    case (Inl err)
    then have "err = TypeError"
      by (auto simp: getProperty_def split: jsvalue.splits)
    with Inl show ?thesis
      using ids lens dist
      by (simp add: showDashboard_def andThen_def onElement_def setUserText_def nth_list_update)
  next
    case (Inr x)
    from Inr obtain rl where rl: "getProperty (currentUser st) ''role'' = Inr rl"
      by (auto simp: getProperty_def split: jsvalue.splits)
    show ?thesis
    proof (cases "textOf P x")
      case (Inl e)
      with textOf_error[OF Inl] Inr show ?thesis
        using ids lens dist
        by (simp add: showDashboard_def andThen_def onElement_def setUserText_def nth_list_update)
    next
      case xt: (Inr xt)
      show ?thesis
      proof (cases "textOf P rl")
        case (Inl e)
        with textOf_error[OF Inl] Inr rl xt show ?thesis
          using ids lens dist
          by (simp add: showDashboard_def andThen_def onElement_def setUserText_def nth_list_update)
      next
        case rt: (Inr rt)
        with no rl have "\<not> hasStringName (currentUser st)"
          by (auto simp: restorable_iff[of _ P])
        with Inr have x: "\<And>nm. x \<noteq> Some (JString nm)"
          by (auto simp: hasStringName_getProperty)
        show ?thesis
          using ids lens dist Inr rl xt rt x
          by (simp add: showDashboard_def andThen_def onElement_def setUserText_def setUserInitial_def
              nth_list_update split: option.splits jsvalue.splits)
      qed
    qed
  qed
qed

lemma defaultLink_cong:
  assumes len: "length D = length doc"
      and hrefs: "map href D = map href doc"
      and cls: "\<forall>i<length doc. \<forall>c. c \<noteq> ''active'' \<longrightarrow> hasClass c (D ! i) = hasClass c (doc ! i)"
  shows "defaultLink D = defaultLink doc"
proof -
  have h: "href (D ! i) = href (doc ! i)" if "i < length doc" for i
    using hrefs that len by (metis nth_map)
  have "map (\<lambda>e. hasClass ''sidebar-link'' e \<and> href e = Some ''#'') D =
        map (\<lambda>e. hasClass ''sidebar-link'' e \<and> href e = Some ''#'') doc"
    using len cls h by (simp add: list_eq_iff_nth_eq)
  then show ?thesis
    unfolding defaultLink_def by (rule firstIndex_cong)
qed

lemma defaultLink_Some:
  "defaultLink doc = Some l \<Longrightarrow> l < length doc \<and> hasClass ''sidebar-link'' (doc ! l)"
  unfolding defaultLink_def by (drule firstIndex_Some) simp

lemma elementById_field:
  assumes ids: "map el_id D = map el_id doc" and f: "map f D = map f doc"
  shows "map_option f (elementById i D) = map_option f (elementById i doc)"
proof (cases "getElementById i doc")
  case None
  then show ?thesis
    using getElementById_ids[OF ids, of i] by (simp add: elementById_def)
next
  case (Some k)
  from getElementById_Some[OF Some] have k: "k < length doc" by simp
  have len: "length D = length doc" using ids by (metis length_map)
  have "f (D ! k) = f (doc ! k)" using f k len by (metis nth_map)
  then show ?thesis
    using Some getElementById_ids[OF ids, of i] by (simp add: elementById_def)
qed

lemma dashboardShown_kept:
  assumes ok: "pageOk doc"
      and ids: "map el_id D = map el_id doc"
      and disp: "map display D = map display doc"
      and keep: "\<forall>i<length doc.
              \<not> hasClass ''content-section'' (doc ! i) \<and> \<not> hasClass ''sidebar-link'' (doc ! i) \<longrightarrow>
              hasClass ''active'' (D ! i) = hasClass ''active'' (doc ! i)"
      and shown: "dashboardShown doc"
  shows "dashboardShown D"
proof -
  from pageOk_id[OF ok, of "''dashboard''"] obtain d where d: "getElementById ''dashboard'' doc = Some d"
    by (auto simp: scriptIds_def)
  from getElementById_Some[OF d] have dl: "d < length doc" "el_id (doc ! d) = ''dashboard''" by simp_all
  with ok have "\<not> hasClass ''content-section'' (doc ! d) \<and> \<not> hasClass ''sidebar-link'' (doc ! d)"
    by (auto simp: pageOk_def list_all_length)
  with keep dl have act: "hasClass ''active'' (D ! d) = hasClass ''active'' (doc ! d)" by simp
  have "map_option display (elementById ''authScreen'' D) = map_option display (elementById ''authScreen'' doc)"
    by (rule elementById_field[OF ids disp])
  then have auth: "(case elementById ''authScreen'' D of None \<Rightarrow> False | Some a \<Rightarrow> display a = ''none'')
      = (case elementById ''authScreen'' doc of None \<Rightarrow> False | Some a \<Rightarrow> display a = ''none'')"
    by (auto split: option.splits)
  have e1: "elementById ''dashboard'' D = Some (D ! d)"
    by (rule elementById_ids[OF ids d])
  have e2: "elementById ''dashboard'' doc = Some (doc ! d)"
    by (rule elementById_ids[OF refl d])
  from shown show ?thesis
    unfolding dashboardShown_def auth e1 e2 using act by simp
qed

lemma loadHandler_restored:
  assumes page: "pageOk (document st)"
      and stored: "localStorage st ''currentUser'' = Some s"
      and ne: "s \<noteq> []"
      and parse: "JSON_parse P s = Some v"
      and ok: "restorable v"
      and nm: "getProperty v ''name'' = Inr (Some (JString nm))"
      and k: "getElementById ''dashboard-section'' (document st) = Some k"
  shows "\<exists>st'. loadHandler P st = Returns st' \<and>
           users st' = users st \<and> currentUser st' = v \<and> localStorage st' = localStorage st \<and>
           dashboardShown (document st') \<and>
           activeOf ''content-section'' (document st') = [k] \<and>
           activeOf ''sidebar-link'' (document st') =
             (case defaultLink (document st) of None \<Rightarrow> [] | Some l \<Rightarrow> [l]) \<and>
           map_option textContent (elementById ''displayUserName'' (document st')) = Some nm"
proof -
  let ?st1 = "st\<lparr>currentUser := v\<rparr>"
  from ok obtain rl rt where rl: "getProperty v ''role'' = Inr rl" and rt: "textOf P rl = Inr rt"
    by (auto simp: restorable_iff[of _ P])
  have page1: "pageOk (document ?st1)" using page by simp
  from showDashboard_shown[of ?st1 nm rl P rt, OF page1] nm rl rt
  obtain st2 where st2: "showDashboard P ?st1 = Returns st2" "sessionOf st2 = sessionOf ?st1"
      "pageOk (document st2)"
      "map el_id (document st2) = map el_id (document st)"
      "map href (document st2) = map href (document st)"
      "\<forall>i<length (document st). \<forall>c. c \<noteq> ''active'' \<longrightarrow>
              hasClass c (document st2 ! i) = hasClass c (document st ! i)"
      "dashboardShown (document st2)"
      "map_option textContent (elementById ''displayUserName'' (document st2)) = Some nm"
    by auto
  have len2: "length (document st2) = length (document st)"
    using st2(4) by (metis length_map)
  have dl: "defaultLink (document st2) = defaultLink (document st)"
    by (rule defaultLink_cong[OF len2 st2(5,6)])
  have call: "loadHandler P st = showSection ''dashboard'' (defaultLink (document st)) st2"
    using stored ne parse st2(1) dl
    by (simp add: loadHandler_def andThen_def split: option.splits)
  have sec: "getElementById (''dashboard'' @ ''-section'') (document st2) = Some k"
    using getElementById_ids[OF st2(4)] k by simp
  from getElementById_Some[OF sec] have kl: "k < length (document st2)"
      "el_id (document st2 ! k) = ''dashboard-section''" by simp_all
  with st2(3) have cs: "hasClass ''content-section'' (document st2 ! k)"
    by (auto simp: pageOk_def list_all_length)
  from st2(3) have dis: "list_all (\<lambda>e. \<not> (hasClass ''content-section'' e \<and> hasClass ''sidebar-link'' e)) (document st2)"
    by (simp add: pageOk_def)
  have sl: "\<forall>j. defaultLink (document st) = Some j \<longrightarrow>
      j < length (document st2) \<and> hasClass ''sidebar-link'' (document st2 ! j)"
    using defaultLink_Some[of "document st2"] dl by auto
  have dis2: "\<And>i. i < length (document st2) \<Longrightarrow>
      \<not> (hasClass ''content-section'' (document st2 ! i) \<and> hasClass ''sidebar-link'' (document st2 ! i))"
    using dis by (simp add: list_all_length)
  have link: "\<forall>j. defaultLink (document st) = Some j \<and> j < length (document st2) \<longrightarrow>
      \<not> hasClass ''content-section'' (document st2 ! j)"
    using sl dis2 by blast
  from showSection_effects[OF sec cs dis link]
  obtain st3 where st3: "showSection ''dashboard'' (defaultLink (document st)) st2 = Returns st3"
      "sessionOf st3 = sessionOf st2"
      "map el_id (document st3) = map el_id (document st2)"
      "map display (document st3) = map display (document st2)"
      "map textContent (document st3) = map textContent (document st2)"
      "\<forall>i<length (document st2).
              \<not> hasClass ''content-section'' (document st2 ! i) \<and> \<not> hasClass ''sidebar-link'' (document st2 ! i) \<and>
              defaultLink (document st) \<noteq> Some i \<longrightarrow>
              hasClass ''active'' (document st3 ! i) = hasClass ''active'' (document st2 ! i)"
      "activeOf ''content-section'' (document st3) = [k]"
      "activeOf ''sidebar-link'' (document st3) =
         (case defaultLink (document st) of None \<Rightarrow> []
          | Some j \<Rightarrow> if j < length (document st2) \<and> hasClass ''sidebar-link'' (document st2 ! j)
                      then [j] else [])"
    by blast
  have keep: "\<forall>i<length (document st2).
              \<not> hasClass ''content-section'' (document st2 ! i) \<and> \<not> hasClass ''sidebar-link'' (document st2 ! i) \<longrightarrow>
              hasClass ''active'' (document st3 ! i) = hasClass ''active'' (document st2 ! i)"
    using st3(6) sl by blast
  have links: "activeOf ''sidebar-link'' (document st3) =
      (case defaultLink (document st) of None \<Rightarrow> [] | Some j \<Rightarrow> [j])"
    using st3(8) sl by (cases "defaultLink (document st)") simp_all
  have shown: "dashboardShown (document st3)"
    by (rule dashboardShown_kept[OF st2(3) st3(3,4) keep st2(7)])
  have text3: "map_option textContent (elementById ''displayUserName'' (document st3)) = Some nm"
    using elementById_field[OF st3(3,5), of "''displayUserName''"] st2(8) by simp
  from st3(2) st2(2) have "users st3 = users st" "currentUser st3 = v" "localStorage st3 = localStorage st"
    by (simp_all add: sessionOf_eq)
  with call st3(1,7) links shown text3 show ?thesis by simp
qed

lemma loadHandler_session:
  "sessionOf (stateOf (loadHandler P st)) = sessionOf st \<or>
   (\<exists>s v. localStorage st ''currentUser'' = Some s \<and> JSON_parse P s = Some v \<and>
      sessionOf (stateOf (loadHandler P st)) = (users st, v, localStorage st))"
proof (cases "localStorage st ''currentUser''")
  case None
  then show ?thesis by (simp add: loadHandler_def)
next
  case (Some s)
  show ?thesis
  proof (cases "s = [] \<or> JSON_parse P s = None")
    case True
    with Some show ?thesis by (auto simp: loadHandler_def)
  next
    case False
    then obtain v where v: "JSON_parse P s = Some v" and ne: "s \<noteq> []" by auto
    have "sessionOf (stateOf (loadHandler P st)) = sessionOf (st\<lparr>currentUser := v\<rparr>)"
      using Some v ne
      by (simp add: loadHandler_def) (rule andThen_session, simp, simp split: option.splits)
    with Some v show ?thesis by (simp add: sessionOf_def)
  qed
qed

lemma handleLogin_session:
  "sessionOf (stateOf (handleLogin P st)) = sessionOf st \<or>
   (\<exists>u. u \<in> set (users st) \<and>
      sessionOf (stateOf (handleLogin P st)) =
        (users st, userObject u, (localStorage st)(''currentUser'' \<mapsto> JSON_stringify P (userObject u))))"
proof (cases "inputValue ''loginEmail'' (document st)")
  case None
  then show ?thesis by (simp add: handleLogin_def)
next
  case e: (Some e)
  show ?thesis
  proof (cases "inputValue ''loginPassword'' (document st)")
    case None
    with e show ?thesis by (simp add: handleLogin_def)
  next
    case p: (Some p)
    show ?thesis
    proof (cases "find (\<lambda>u. email u = e \<and> password u = p) (users st)")
      case None
      with e p show ?thesis by (simp add: handleLogin_def)
    next
      case (Some u)
      then have "u \<in> set (users st)" by (auto simp: find_Some_iff)
      moreover have "sessionOf (stateOf (handleLogin P st)) =
        (users st, userObject u, (localStorage st)(''currentUser'' \<mapsto> JSON_stringify P (userObject u)))"
        using e p Some by (simp add: handleLogin_def) (simp add: sessionOf_def)
      ultimately show ?thesis by blast
    qed
  qed
qed

lemma handleRegister_session:
  "sessionOf (stateOf (handleRegister P st)) = sessionOf st \<or>
   (\<exists>u. id' u = length (users st) + 1 \<and>
      sessionOf (stateOf (handleRegister P st)) =
        (users st @ [u], userObject u, (localStorage st)(''currentUser'' \<mapsto> JSON_stringify P (userObject u))))"
proof (cases "\<exists>n e p t. inputValue ''registerName'' (document st) = Some n \<and>
    inputValue ''registerEmail'' (document st) = Some e \<and>
    inputValue ''registerPassword'' (document st) = Some p \<and>
    inputValue ''registerUserType'' (document st) = Some t")
  case False
  then have "handleRegister P st = Throws TypeError st"
    by (auto simp: handleRegister_def split: option.splits)
  then show ?thesis by simp
next
  case True
  then obtain n e p t where i: "inputValue ''registerName'' (document st) = Some n"
    "inputValue ''registerEmail'' (document st) = Some e"
    "inputValue ''registerPassword'' (document st) = Some p"
    "inputValue ''registerUserType'' (document st) = Some t" by blast
  let ?u = "\<lparr>id' = length (users st) + 1, name = n, email = e, password = p, userType = t, role = roleOf t\<rparr>"
  show ?thesis
  proof (cases "length p < 6 \<or> (\<exists>u. u \<in> set (users st) \<and> email u = e)")
    case True
    with handleRegister_cases[OF i, of P] show ?thesis by auto
  next
    case False
    then have np: "\<not> length p < 6" and ne: "\<not> (\<exists>u. u \<in> set (users st) \<and> email u = e)" by auto
    have "sessionOf (stateOf (handleRegister P st)) =
        (users st @ [?u], userObject ?u, (localStorage st)(''currentUser'' \<mapsto> JSON_stringify P (userObject ?u)))"
      unfolding handleRegister_cases[OF i, of P] if_not_P[OF np] if_not_P[OF ne]
      by simp (simp add: sessionOf_def)
    moreover have "id' ?u = length (users st) + 1" by simp
    ultimately show ?thesis by blast
  qed
qed

lemma users_of_session: "sessionOf a = sessionOf b \<Longrightarrow> users a = users b"
  by (simp add: sessionOf_def)

lemma handleRegister_users:
  assumes n: "inputValue ''registerName'' (document st) = Some n"
      and e: "inputValue ''registerEmail'' (document st) = Some e"
      and p: "inputValue ''registerPassword'' (document st) = Some p"
      and t: "inputValue ''registerUserType'' (document st) = Some t"
  shows "users (stateOf (handleRegister P st)) =
     (if 6 \<le> length p \<and> \<not> (\<exists>u. u \<in> set (users st) \<and> email u = e)
      then users st @ [\<lparr>id' = length (users st) + 1, name = n, email = e, password = p,
                         userType = t, role = roleOf t\<rparr>]
      else users st)"
proof (cases "length p < 6")
  case True
  then have c: "\<not> (6 \<le> length p \<and> \<not> (\<exists>u. u \<in> set (users st) \<and> email u = e))" by simp
  show ?thesis
    unfolding handleRegister_cases[OF n e p t, of P] if_P[OF True] if_not_P[OF c]
    by (rule users_of_session) simp
next
  case False
  note long = this
  show ?thesis
  proof (cases "\<exists>u. u \<in> set (users st) \<and> email u = e")
    case True
    then have c: "\<not> (6 \<le> length p \<and> \<not> (\<exists>u. u \<in> set (users st) \<and> email u = e))" by simp
    show ?thesis
      unfolding handleRegister_cases[OF n e p t, of P] if_not_P[OF long] if_P[OF True] if_not_P[OF c]
      by (rule users_of_session) simp
  next
    case False
    with long have c: "6 \<le> length p \<and> \<not> (\<exists>u. u \<in> set (users st) \<and> email u = e)" by simp
    let ?u = "\<lparr>id' = length (users st) + 1, name = n, email = e, password = p, userType = t,
               role = roleOf t\<rparr>"
    let ?s = "st\<lparr>users := users st @ [?u], currentUser := userObject ?u,
                localStorage := (localStorage st)(''currentUser'' \<mapsto> JSON_stringify P (userObject ?u))\<rparr>"
    have "users (stateOf (showDashboard P ?s)) = users ?s"
      by (rule users_of_session) simp
    then show ?thesis
      unfolding handleRegister_cases[OF n e p t, of P] if_not_P[OF long] if_not_P[OF False] if_P[OF c]
      by simp
  qed
qed

lemma handleRegister_unreadable:
  assumes "inputValue ''registerName'' (document st) = None \<or>
           inputValue ''registerEmail'' (document st) = None \<or>
           inputValue ''registerPassword'' (document st) = None \<or>
           inputValue ''registerUserType'' (document st) = None"
  shows "handleRegister P st = Throws TypeError st"
  using assms by (auto simp: handleRegister_def split: option.splits)

lemma run_users:
  "users (stateOf (run P op st)) = users st \<or>
   (op = Register \<and> (\<exists>u. id' u = length (users st) + 1 \<and> users (stateOf (run P op st)) = users st @ [u]))"
proof (cases op)
  case Load
  with loadHandler_session[of P st] show ?thesis by (auto simp: sessionOf_def)
next
  case Login
  with handleLogin_session[of P st] show ?thesis by (auto simp: sessionOf_def)
next
  case Register
  with handleRegister_session[of P st] show ?thesis by (auto simp: sessionOf_def)
next
  case Logout
  with handleLogout_session[of st] show ?thesis by (simp add: sessionOf_def)
next
  case ToggleToRegister
  with toggle_session(1)[of st] show ?thesis by (simp add: sessionOf_def)
next
  case ToggleToLogin
  with toggle_session(2)[of st] show ?thesis by (simp add: sessionOf_def)
next
  case (ShowSection sectionId linkEl)
  with showSection_session[of sectionId linkEl st] show ?thesis by (simp add: sessionOf_def)
qed

lemma sessionMirrored_user:
  assumes "currentUser st = userObject u"
      and "localStorage st ''currentUser'' = Some (JSON_stringify P (userObject u))"
  shows "sessionMirrored P st"
  using assms by (simp add: sessionMirrored_def userObject_def)

lemma sessionMirrored_null:
  assumes "currentUser st = JNull" and "localStorage st ''currentUser'' = None"
  shows "sessionMirrored P st"
  using assms by (simp add: sessionMirrored_def)

lemma sessionMirrored_cong:
  assumes "currentUser st' = currentUser st" and "localStorage st' = localStorage st"
  shows "sessionMirrored P st' = sessionMirrored P st"
  using assms by (cases "currentUser st") (simp_all add: sessionMirrored_def)

lemma handleLogin_not_found:
  assumes e: "inputValue ''loginEmail'' (document st) = Some e"
      and p: "inputValue ''loginPassword'' (document st) = Some p"
      and no: "\<not> (\<exists>u. u \<in> set (users st) \<and> email u = e \<and> password u = p)"
  shows "handleLogin P st =
      showError (getElementById ''loginError'' (document st)) ''Invalid email or password'' st"
proof -
  from no have "find (\<lambda>u. email u = e \<and> password u = p) (users st) = None"
    by (auto simp: find_None_iff)
  with e p show ?thesis by (simp add: handleLogin_def)
qed

subsection \<open>The examples\<close>

lemmas sample_simps = sampleState_def initialState_def samplePage_def el_def loginWith_def
  registerWith_def typeInto_def getElementById_def elementById_def inputValue_def hasClass_def
  demoUsers_def

lemma sample_loginWith:
  "pageOk (document (loginWith e p (sampleState m)))"
  "inputValue ''loginEmail'' (document (loginWith e p (sampleState m))) = Some e"
  "inputValue ''loginPassword'' (document (loginWith e p (sampleState m))) = Some p"
  "users (loginWith e p (sampleState m)) = demoUsers"
  "currentUser (loginWith e p (sampleState m)) = JNull"
  "localStorage (loginWith e p (sampleState m)) = m"
  by (simp_all add: sample_simps pageOk_def scriptIds_def)

lemma sample_registerWith:
  "pageOk (document (registerWith n e p t (sampleState m)))"
  "inputValue ''registerName'' (document (registerWith n e p t (sampleState m))) = Some n"
  "inputValue ''registerEmail'' (document (registerWith n e p t (sampleState m))) = Some e"
  "inputValue ''registerPassword'' (document (registerWith n e p t (sampleState m))) = Some p"
  "inputValue ''registerUserType'' (document (registerWith n e p t (sampleState m))) = Some t"
  "getElementById ''registerError'' (document (registerWith n e p t (sampleState m))) = Some 10"
  "10 < length (document (registerWith n e p t (sampleState m)))"
  "users (registerWith n e p t (sampleState m)) = demoUsers"
  "currentUser (registerWith n e p t (sampleState m)) = JNull"
  "localStorage (registerWith n e p t (sampleState m)) = m"
  by (simp_all add: sample_simps pageOk_def scriptIds_def)

lemma sample_stringify: "JSON_stringify samplePlatform (userObject u) = userEntry u"
  by (cases u) (simp add: samplePlatform_def userObject_def)

lemma length_demoUsers: "length demoUsers = 3"
  by (simp add: demoUsers_def)

lemma sample_find:
  "find (\<lambda>u. email u = ''demo@lawfirm.com'' \<and> password u = ''Demo@123'') demoUsers = Some (hd demoUsers)"
  by (simp add: demoUsers_def)

lemma sample_ids:
  "getElementById ''dashboard'' (document (loginWith e p (sampleState m))) = Some 11"
  "getElementById ''authScreen'' (document (loginWith e p (sampleState m))) = Some 0"
  "getElementById ''loginEmail'' (document (loginWith e p (sampleState m))) = Some 2"
  "getElementById ''loginPassword'' (document (loginWith e p (sampleState m))) = Some 3"
  by (simp_all add: sample_simps)

lemma sample_page:
  "pageOk (document (sampleState m))"
  "getElementById ''dashboard-section'' (document (sampleState m)) = Some 17"
  "defaultLink (document (sampleState m)) = Some 15"
  "users (sampleState m) = demoUsers"
  "currentUser (sampleState m) = JNull"
  "localStorage (sampleState m) = m"
  by (simp_all add: sample_simps pageOk_def scriptIds_def defaultLink_def)

lemma sample_parse:
  "JSON_parse samplePlatform adminEntry = Some adminObject"
  "JSON_parse samplePlatform (userEntry (hd demoUsers)) = Some (userObject (hd demoUsers))"
  "JSON_parse samplePlatform ''null'' = Some JNull"
  "JSON_parse samplePlatform ''garbage'' = None"
  "adminEntry \<noteq> []" "userEntry (hd demoUsers) \<noteq> []"
  "JSON_parse samplePlatform badRoleEntry = Some badRoleObject" "badRoleEntry \<noteq> []"
  by (simp_all add: samplePlatform_def adminEntry_def badRoleEntry_def userEntry_def quoted_def
      demoUsers_def)

lemma sample_values:
  "restorable adminObject" "\<not> isUserRecord adminObject"
  "restorable (userObject u)" "isUserRecord (userObject u)"
  "\<not> restorable JNull"
  "hasStringName badRoleObject" "\<not> restorable badRoleObject"
  by (simp_all add: restorable_def hasStringName_def isUserRecord_def adminObject_def
      badRoleObject_def userObject_def isString_def isNumber_def)

lemma sample_register_users:
  "users (stateOf (handleRegister samplePlatform
      (registerWith ''Ann'' ''ann@firm.com'' ''secret'' ''solo'' (sampleState Map.empty)))) =
   demoUsers @ [\<lparr>id' = 4, name = ''Ann'', email = ''ann@firm.com'', password = ''secret'',
                 userType = ''solo'', role = ''Solo Practitioner''\<rparr>]"
proof -
  let ?s = "registerWith ''Ann'' ''ann@firm.com'' ''secret'' ''solo'' (sampleState Map.empty)"
  have long: "\<not> length ''secret'' < 6" by simp
  have fresh: "\<not> (\<exists>u. u \<in> set (users ?s) \<and> email u = ''ann@firm.com'')"
    by (auto simp: sample_registerWith demoUsers_def)
  note c = handleRegister_cases[OF sample_registerWith(2-5), of samplePlatform "''Ann''" "''ann@firm.com''"
      "''secret''" "''solo''" Map.empty, unfolded if_not_P[OF long] if_not_P[OF fresh]]
  have "sessionOf (stateOf (handleRegister samplePlatform ?s)) =
      sessionOf (?s\<lparr>users := users ?s @ [\<lparr>id' = length (users ?s) + 1, name = ''Ann'', email = ''ann@firm.com'',
          password = ''secret'', userType = ''solo'', role = roleOf ''solo''\<rparr>],
        currentUser := userObject \<lparr>id' = length (users ?s) + 1, name = ''Ann'', email = ''ann@firm.com'',
          password = ''secret'', userType = ''solo'', role = roleOf ''solo''\<rparr>,
        localStorage := (localStorage ?s)(''currentUser'' \<mapsto> JSON_stringify samplePlatform
          (userObject \<lparr>id' = length (users ?s) + 1, name = ''Ann'', email = ''ann@firm.com'',
          password = ''secret'', userType = ''solo'', role = roleOf ''solo''\<rparr>))\<rparr>)"
    unfolding c by simp
  then show ?thesis
    by (simp add: sessionOf_eq sample_registerWith length_demoUsers roleOf_def)
qed

section \<open>The claims\<close>

subsection \<open>Login\<close>

text \<open>
  Claim C1. On the page the script is written for, with \<open>e\<close> and \<open>p\<close> in the email
  and password fields: if some record of \<open>users\<close> has exactly that email and that
  password, \<open>handleLogin\<close> takes such a record as \<open>currentUser\<close>, stores its
  serialization under \<open>currentUser\<close> and shows the dashboard with that user's name and
  role; otherwise it changes neither \<open>users\<close> nor \<open>currentUser\<close> nor the storage,
  and the login error element holds the invalid-credentials message.
\<close>

theorem handleLogin_iff_match:
  assumes page: "pageOk (document st)"
      and e: "inputValue ''loginEmail'' (document st) = Some e"
      and p: "inputValue ''loginPassword'' (document st) = Some p"
  shows "if (\<exists>u. u \<in> set (users st) \<and> email u = e \<and> password u = p)
         then (\<exists>u st'. u \<in> set (users st) \<and> email u = e \<and> password u = p \<and>
                 handleLogin P st = Returns st' \<and>
                 users st' = users st \<and>
                 currentUser st' = userObject u \<and>
                 localStorage st' = (localStorage st)(''currentUser'' \<mapsto> JSON_stringify P (userObject u)) \<and>
                 dashboardShown (document st') \<and> sectionActive ''dashboard'' (document st') \<and>
                 map_option textContent (elementById ''displayUserName'' (document st')) = Some (name u) \<and>
                 map_option textContent (elementById ''displayUserRole'' (document st')) = Some (role u))
         else (\<exists>st'. handleLogin P st = Returns st' \<and> sessionOf st' = sessionOf st \<and>
                 map_option innerHTML (elementById ''loginError'' (document st')) =
                   Some (errorMessage ''Invalid email or password''))"
proof (cases "find (\<lambda>u. email u = e \<and> password u = p) (users st)")
  case None
  then have no: "\<not> (\<exists>u. u \<in> set (users st) \<and> email u = e \<and> password u = p)"
    by (auto simp: find_None_iff)
  from pageOk_id[OF page, of "''loginError''"] obtain k where
    k: "getElementById ''loginError'' (document st) = Some k"
    by (auto simp: scriptIds_def)
  have "handleLogin P st = showError (getElementById ''loginError'' (document st)) ''Invalid email or password'' st"
    using e p None by (simp add: handleLogin_def)
  with showError_shown[OF k, of "''Invalid email or password''"] no show ?thesis
    by auto
next
  case (Some u)
  then have u: "u \<in> set (users st)" "email u = e" "password u = p"
    by (auto simp: find_Some_iff)
  from handleLogin_found[OF page e p Some, of P] u show ?thesis by auto
qed

theorem handleLogin_iff_match_witness:
  "pageOk (document (loginWith ''demo@lawfirm.com'' ''Demo@123'' (sampleState Map.empty))) \<and>
   inputValue ''loginEmail'' (document (loginWith ''demo@lawfirm.com'' ''Demo@123'' (sampleState Map.empty)))
     = Some ''demo@lawfirm.com'' \<and>
   inputValue ''loginPassword'' (document (loginWith ''demo@lawfirm.com'' ''Demo@123'' (sampleState Map.empty)))
     = Some ''Demo@123'' \<and>
   (\<exists>st'. handleLogin samplePlatform (loginWith ''demo@lawfirm.com'' ''Demo@123'' (sampleState Map.empty))
            = Returns st' \<and>
          currentUser st' = userObject (hd demoUsers) \<and>
          localStorage st' ''currentUser'' = Some (userEntry (hd demoUsers)) \<and>
          dashboardShown (document st') \<and>
          map_option textContent (elementById ''displayUserName'' (document st')) = Some ''Demo User'') \<and>
   (\<exists>st'. handleLogin samplePlatform (loginWith ''demo@lawfirm.com'' ''Demo@12'' (sampleState Map.empty))
            = Returns st' \<and>
          currentUser st' = JNull \<and> localStorage st' ''currentUser'' = None \<and>
          map_option innerHTML (elementById ''loginError'' (document st')) =
            Some (errorMessage ''Invalid email or password''))"
proof -
  let ?s1 = "loginWith ''demo@lawfirm.com'' ''Demo@123'' (sampleState Map.empty)"
  let ?s2 = "loginWith ''demo@lawfirm.com'' ''Demo@12'' (sampleState Map.empty)"
  note h = sample_loginWith(1-3)[of "''demo@lawfirm.com''" "''Demo@123''" Map.empty]
  note g = sample_loginWith(1-3)[of "''demo@lawfirm.com''" "''Demo@12''" Map.empty]
  have m1: "\<exists>u. u \<in> set (users ?s1) \<and> email u = ''demo@lawfirm.com'' \<and> password u = ''Demo@123''"
    by (rule exI[of _ "hd demoUsers"]) (simp add: sample_loginWith demoUsers_def)
  have m2: "\<not> (\<exists>u. u \<in> set (users ?s2) \<and> email u = ''demo@lawfirm.com'' \<and> password u = ''Demo@12'')"
    by (auto simp: sample_loginWith demoUsers_def)
  have a: "\<exists>st'. handleLogin samplePlatform ?s1 = Returns st' \<and>
          currentUser st' = userObject (hd demoUsers) \<and>
          localStorage st' ''currentUser'' = Some (userEntry (hd demoUsers)) \<and>
          dashboardShown (document st') \<and>
          map_option textContent (elementById ''displayUserName'' (document st')) = Some ''Demo User''"
    using handleLogin_iff_match[OF h, of samplePlatform, unfolded if_P[OF m1]]
    by (auto simp: sample_loginWith demoUsers_def samplePlatform_def userObject_def)
  have b: "\<exists>st'. handleLogin samplePlatform ?s2 = Returns st' \<and>
          currentUser st' = JNull \<and> localStorage st' ''currentUser'' = None \<and>
          map_option innerHTML (elementById ''loginError'' (document st')) =
            Some (errorMessage ''Invalid email or password'')"
    using handleLogin_iff_match[OF g, of samplePlatform, unfolded if_not_P[OF m2]]
    by (auto simp: sample_loginWith sessionOf_eq)
  from h a b show ?thesis by simp
qed

subsection \<open>The users list\<close>

text \<open>
  Claim C2, as stated, fails: a registration with a new email and a password of six
  characters leaves four records in \<open>users\<close>.
\<close>

theorem users_fixed_counterexample:
  "users (registerWith ''Ann'' ''ann@firm.com'' ''secret'' ''solo'' (sampleState Map.empty)) = demoUsers \<and>
   length demoUsers = 3 \<and>
   length (users (stateOf (run samplePlatform Register
     (registerWith ''Ann'' ''ann@firm.com'' ''secret'' ''solo'' (sampleState Map.empty))))) = 4 \<and>
   users (stateOf (run samplePlatform Register
     (registerWith ''Ann'' ''ann@firm.com'' ''secret'' ''solo'' (sampleState Map.empty)))) \<noteq> demoUsers"
  by (simp add: sample_register_users sample_registerWith length_demoUsers)

text \<open>
  Claim C2, amended. When the script has been evaluated \<open>users\<close> holds the three demo
  records. Every operation of the page other than a registration leaves the list as it
  is. A registration whose four fields can be read appends one record exactly when it is
  accepted, that is when the password has six characters or more and no record of the
  list has the email: the record is made of the four fields, with the length of the list
  before plus one for its id and the role its user type stands for, and the records the
  list had stay, in their order; a registration that is rejected, or that cannot read
  one of its fields, leaves the list as it is.
\<close>

theorem users_grows_by_register_only:
  "users (initialState storage page) = demoUsers \<and> length demoUsers = 3 \<and>
   (op \<noteq> Register \<longrightarrow> users (stateOf (run P op st)) = users st) \<and>
   (\<forall>n e p t. inputValue ''registerName'' (document st) = Some n \<and>
       inputValue ''registerEmail'' (document st) = Some e \<and>
       inputValue ''registerPassword'' (document st) = Some p \<and>
       inputValue ''registerUserType'' (document st) = Some t \<longrightarrow>
       users (stateOf (run P Register st)) =
         (if 6 \<le> length p \<and> \<not> (\<exists>u. u \<in> set (users st) \<and> email u = e)
          then users st @ [\<lparr>id' = length (users st) + 1, name = n, email = e, password = p,
                             userType = t, role = roleOf t\<rparr>]
          else users st)) \<and>
   (inputValue ''registerName'' (document st) = None \<or>
    inputValue ''registerEmail'' (document st) = None \<or>
    inputValue ''registerPassword'' (document st) = None \<or>
    inputValue ''registerUserType'' (document st) = None \<longrightarrow>
      run P Register st = Throws TypeError st \<and> users (stateOf (run P Register st)) = users st)"
proof -
  have a: "op \<noteq> Register \<longrightarrow> users (stateOf (run P op st)) = users st"
    using run_users[of P op st] by blast
  have b: "\<forall>n e p t. inputValue ''registerName'' (document st) = Some n \<and>
       inputValue ''registerEmail'' (document st) = Some e \<and>
       inputValue ''registerPassword'' (document st) = Some p \<and>
       inputValue ''registerUserType'' (document st) = Some t \<longrightarrow>
       users (stateOf (run P Register st)) =
         (if 6 \<le> length p \<and> \<not> (\<exists>u. u \<in> set (users st) \<and> email u = e)
          then users st @ [\<lparr>id' = length (users st) + 1, name = n, email = e, password = p,
                             userType = t, role = roleOf t\<rparr>]
          else users st)"
  proof (intro allI impI)
    fix n e p t
    assume i: "inputValue ''registerName'' (document st) = Some n \<and>
       inputValue ''registerEmail'' (document st) = Some e \<and>
       inputValue ''registerPassword'' (document st) = Some p \<and>
       inputValue ''registerUserType'' (document st) = Some t"
    then have i1: "inputValue ''registerName'' (document st) = Some n"
      and i2: "inputValue ''registerEmail'' (document st) = Some e"
      and i3: "inputValue ''registerPassword'' (document st) = Some p"
      and i4: "inputValue ''registerUserType'' (document st) = Some t" by simp_all
    from handleRegister_users[OF i1 i2 i3 i4, of P]
    show "users (stateOf (run P Register st)) =
         (if 6 \<le> length p \<and> \<not> (\<exists>u. u \<in> set (users st) \<and> email u = e)
          then users st @ [\<lparr>id' = length (users st) + 1, name = n, email = e, password = p,
                             userType = t, role = roleOf t\<rparr>]
          else users st)"
      by simp
  qed
  have c: "inputValue ''registerName'' (document st) = None \<or>
    inputValue ''registerEmail'' (document st) = None \<or>
    inputValue ''registerPassword'' (document st) = None \<or>
    inputValue ''registerUserType'' (document st) = None \<longrightarrow>
      run P Register st = Throws TypeError st \<and> users (stateOf (run P Register st)) = users st"
    using handleRegister_unreadable[of st P] by simp
  have d: "users (initialState storage page) = demoUsers \<and> length demoUsers = 3"
    by (simp add: initialState_def length_demoUsers)
  from a b c d show ?thesis by blast
qed

theorem users_grows_by_register_only_witness:
  "users (stateOf (run samplePlatform Login
     (loginWith ''demo@lawfirm.com'' ''Demo@123'' (sampleState Map.empty)))) = demoUsers \<and>
   users (stateOf (run samplePlatform Logout (sampleState Map.empty))) = demoUsers \<and>
   users (stateOf (run samplePlatform Register
     (registerWith ''Ann'' ''ann@firm.com'' ''secret'' ''solo'' (sampleState Map.empty)))) =
     demoUsers @ [\<lparr>id' = 4, name = ''Ann'', email = ''ann@firm.com'', password = ''secret'',
                   userType = ''solo'', role = ''Solo Practitioner''\<rparr>] \<and>
   users (stateOf (run samplePlatform Register
     (registerWith ''Ann'' ''ann@firm.com'' ''short'' ''solo'' (sampleState Map.empty)))) = demoUsers \<and>
   users (stateOf (run samplePlatform Register
     (registerWith ''Ann'' ''demo@lawfirm.com'' ''secret'' ''solo'' (sampleState Map.empty)))) = demoUsers"
proof -
  note t = users_grows_by_register_only[of Map.empty samplePage _ samplePlatform]
  from t[of Login "loginWith ''demo@lawfirm.com'' ''Demo@123'' (sampleState Map.empty)"]
  have a: "users (stateOf (run samplePlatform Login
     (loginWith ''demo@lawfirm.com'' ''Demo@123'' (sampleState Map.empty)))) = demoUsers"
    by (simp add: sample_loginWith)
  from t[of Logout "sampleState Map.empty"]
  have b: "users (stateOf (run samplePlatform Logout (sampleState Map.empty))) = demoUsers"
    by (simp add: sample_page)
  have m1: "\<not> (\<exists>u. u \<in> set demoUsers \<and> email u = ''ann@firm.com'')"
    by (auto simp: demoUsers_def)
  from t[of Register "registerWith ''Ann'' ''ann@firm.com'' ''secret'' ''solo'' (sampleState Map.empty)"]
  have c: "users (stateOf (run samplePlatform Register
     (registerWith ''Ann'' ''ann@firm.com'' ''secret'' ''solo'' (sampleState Map.empty)))) =
     demoUsers @ [\<lparr>id' = 4, name = ''Ann'', email = ''ann@firm.com'', password = ''secret'',
                   userType = ''solo'', role = ''Solo Practitioner''\<rparr>]"
    using m1 by (simp add: sample_registerWith length_demoUsers roleOf_def)
  from t[of Register "registerWith ''Ann'' ''ann@firm.com'' ''short'' ''solo'' (sampleState Map.empty)"]
  have d: "users (stateOf (run samplePlatform Register
     (registerWith ''Ann'' ''ann@firm.com'' ''short'' ''solo'' (sampleState Map.empty)))) = demoUsers"
    by (simp add: sample_registerWith)
  have m2: "\<exists>u. u \<in> set demoUsers \<and> email u = ''demo@lawfirm.com''"
    by (rule exI[of _ "hd demoUsers"]) (simp add: demoUsers_def)
  from t[of Register "registerWith ''Ann'' ''demo@lawfirm.com'' ''secret'' ''solo'' (sampleState Map.empty)"]
  have e: "users (stateOf (run samplePlatform Register
     (registerWith ''Ann'' ''demo@lawfirm.com'' ''secret'' ''solo'' (sampleState Map.empty)))) = demoUsers"
    using m2 by (simp add: sample_registerWith)
  from a b c d e show ?thesis by simp
qed

subsection \<open>A login that fails\<close>

text \<open>
  Claim C3. With \<open>e\<close> and \<open>p\<close> in the login fields and no record of \<open>users\<close>
  that has both, \<open>handleLogin\<close> returns a state that differs from the one before in
  one place only: the markup of the login error element is the invalid-credentials
  message. \<open>users\<close>, \<open>currentUser\<close> and the storage, its \<open>currentUser\<close> entry
  included, are as before.
\<close>

theorem handleLogin_no_match:
  assumes e: "inputValue ''loginEmail'' (document st) = Some e"
      and p: "inputValue ''loginPassword'' (document st) = Some p"
      and k: "getElementById ''loginError'' (document st) = Some k"
      and no: "\<not> (\<exists>u. u \<in> set (users st) \<and> email u = e \<and> password u = p)"
  shows "\<exists>st'. handleLogin P st = Returns st' \<and>
           users st' = users st \<and> currentUser st' = currentUser st \<and>
           localStorage st' = localStorage st \<and>
           document st' = (document st)
             [k := (document st ! k)\<lparr>innerHTML := errorMessage ''Invalid email or password''\<rparr>]"
proof -
  from no have "find (\<lambda>u. email u = e \<and> password u = p) (users st) = None"
    by (auto simp: find_None_iff)
  with e p have "handleLogin P st =
      showError (getElementById ''loginError'' (document st)) ''Invalid email or password'' st"
    by (simp add: handleLogin_def)
  with showError_shown[OF k, of "''Invalid email or password''"] show ?thesis
    by (auto simp: sessionOf_eq)
qed

theorem handleLogin_no_match_witness:
  "inputValue ''loginEmail'' (document (loginWith ''demo@lawfirm.com'' ''demo@123'' (sampleState Map.empty)))
     = Some ''demo@lawfirm.com'' \<and>
   inputValue ''loginPassword'' (document (loginWith ''demo@lawfirm.com'' ''demo@123'' (sampleState Map.empty)))
     = Some ''demo@123'' \<and>
   getElementById ''loginError'' (document (loginWith ''demo@lawfirm.com'' ''demo@123'' (sampleState Map.empty)))
     = Some 4 \<and>
   \<not> (\<exists>u. u \<in> set (users (loginWith ''demo@lawfirm.com'' ''demo@123'' (sampleState Map.empty))) \<and>
          email u = ''demo@lawfirm.com'' \<and> password u = ''demo@123'') \<and>
   (\<exists>st'. handleLogin samplePlatform (loginWith ''demo@lawfirm.com'' ''demo@123'' (sampleState Map.empty))
            = Returns st' \<and>
          users st' = demoUsers \<and> currentUser st' = JNull \<and> localStorage st' = Map.empty \<and>
          innerHTML (document st' ! 4) = errorMessage ''Invalid email or password'')"
proof -
  let ?s = "loginWith ''demo@lawfirm.com'' ''demo@123'' (sampleState Map.empty)"
  note h = sample_loginWith(2,3)[of "''demo@lawfirm.com''" "''demo@123''" Map.empty]
  have k: "getElementById ''loginError'' (document ?s) = Some 4"
    by (simp add: sample_simps)
  have no: "\<not> (\<exists>u. u \<in> set (users ?s) \<and> email u = ''demo@lawfirm.com'' \<and> password u = ''demo@123'')"
    by (auto simp: sample_loginWith demoUsers_def)
  have len: "4 < length (document ?s)"
    by (simp add: sample_simps)
  from handleLogin_no_match[OF h k no, of samplePlatform] len
  have "\<exists>st'. handleLogin samplePlatform ?s = Returns st' \<and>
          users st' = demoUsers \<and> currentUser st' = JNull \<and> localStorage st' = Map.empty \<and>
          innerHTML (document st' ! 4) = errorMessage ''Invalid email or password''"
    by (auto simp: sample_loginWith)
  with h k no show ?thesis by simp
qed

subsection \<open>The stored session\<close>

text \<open>
  Claim C4, as stated, fails. The page is loaded with the entry \<open>garbage\<close> under
  \<open>currentUser\<close>: the load handler throws and leaves \<open>currentUser\<close> at \<open>null\<close>. A
  login with a wrong password then completes, and after it \<open>currentUser\<close> is
  \<open>null\<close> while the entry is still there.
\<close>

theorem session_mirror_counterexample:
  "loadHandler samplePlatform (sampleState [''currentUser'' \<mapsto> ''garbage'']) =
     Throws SyntaxError (sampleState [''currentUser'' \<mapsto> ''garbage'']) \<and>
   \<not> raises (run samplePlatform Login
       (loginWith ''demo@lawfirm.com'' ''wrong'' (sampleState [''currentUser'' \<mapsto> ''garbage'']))) \<and>
   currentUser (stateOf (run samplePlatform Login
       (loginWith ''demo@lawfirm.com'' ''wrong'' (sampleState [''currentUser'' \<mapsto> ''garbage''])))) = JNull \<and>
   localStorage (stateOf (run samplePlatform Login
       (loginWith ''demo@lawfirm.com'' ''wrong'' (sampleState [''currentUser'' \<mapsto> ''garbage'']))))
     ''currentUser'' = Some ''garbage'' \<and>
   \<not> sessionMirrored samplePlatform (stateOf (run samplePlatform Login
       (loginWith ''demo@lawfirm.com'' ''wrong'' (sampleState [''currentUser'' \<mapsto> ''garbage'']))))"
proof -
  let ?s = "loginWith ''demo@lawfirm.com'' ''wrong'' (sampleState [''currentUser'' \<mapsto> ''garbage''])"
  have l: "loadHandler samplePlatform (sampleState [''currentUser'' \<mapsto> ''garbage'']) =
     Throws SyntaxError (sampleState [''currentUser'' \<mapsto> ''garbage''])"
    by (simp add: loadHandler_def sample_page sample_parse)
  have no: "\<not> (\<exists>u. u \<in> set (users ?s) \<and> email u = ''demo@lawfirm.com'' \<and> password u = ''wrong'')"
    by (auto simp: sample_loginWith demoUsers_def)
  have k: "getElementById ''loginError'' (document ?s) = Some 4"
    by (simp add: sample_simps)
  from showError_shown[OF k, of "''Invalid email or password''"]
  obtain st' where st': "handleLogin samplePlatform ?s = Returns st'" "sessionOf st' = sessionOf ?s"
    unfolding handleLogin_not_found[OF sample_loginWith(2,3) no, of samplePlatform, symmetric]
    by blast
  from st'(2) have "currentUser st' = JNull" "localStorage st' ''currentUser'' = Some ''garbage''"
    by (simp_all add: sessionOf_eq sample_loginWith)
  with l st'(1) show ?thesis
    by (simp add: sessionMirrored_def)
qed

text \<open>
  Claim C4, amended. After every logout, after every login that finds a record with the
  submitted email and password, and after every accepted registration, the stored
  \<open>currentUser\<close> entry mirrors the session: it is absent when \<open>currentUser\<close> is
  \<open>null\<close> and it is the serialization of \<open>currentUser\<close> when that is a user record.
  A login that finds no record and a rejected registration leave \<open>currentUser\<close> and the
  storage as they were. So each of the three operations keeps the mirror where it held.
\<close>

theorem session_mirrored_after:
  "sessionMirrored P (stateOf (handleLogout st)) \<and>
   (\<forall>e p. inputValue ''loginEmail'' (document st) = Some e \<and>
          inputValue ''loginPassword'' (document st) = Some p \<longrightarrow>
      (if (\<exists>u. u \<in> set (users st) \<and> email u = e \<and> password u = p)
       then sessionMirrored P (stateOf (handleLogin P st))
       else currentUser (stateOf (handleLogin P st)) = currentUser st \<and>
            localStorage (stateOf (handleLogin P st)) = localStorage st)) \<and>
   (\<forall>n e p t. inputValue ''registerName'' (document st) = Some n \<and>
          inputValue ''registerEmail'' (document st) = Some e \<and>
          inputValue ''registerPassword'' (document st) = Some p \<and>
          inputValue ''registerUserType'' (document st) = Some t \<longrightarrow>
      (if length p < 6 \<or> (\<exists>u. u \<in> set (users st) \<and> email u = e)
       then currentUser (stateOf (handleRegister P st)) = currentUser st \<and>
            localStorage (stateOf (handleRegister P st)) = localStorage st
       else sessionMirrored P (stateOf (handleRegister P st)))) \<and>
   (sessionMirrored P st \<longrightarrow>
      sessionMirrored P (stateOf (run P Login st)) \<and>
      sessionMirrored P (stateOf (run P Register st)) \<and>
      sessionMirrored P (stateOf (run P Logout st)))"
proof -
  have out: "sessionMirrored P (stateOf (handleLogout st))"
    using handleLogout_session[of st]
    by (intro sessionMirrored_null) (simp_all add: sessionOf_def)
  have login: "if (\<exists>u. u \<in> set (users st) \<and> email u = e \<and> password u = p)
       then sessionMirrored P (stateOf (handleLogin P st))
       else currentUser (stateOf (handleLogin P st)) = currentUser st \<and>
            localStorage (stateOf (handleLogin P st)) = localStorage st"
    if e: "inputValue ''loginEmail'' (document st) = Some e"
      and p: "inputValue ''loginPassword'' (document st) = Some p" for e p
  proof (cases "\<exists>u. u \<in> set (users st) \<and> email u = e \<and> password u = p")
    case False
    have "sessionOf (stateOf (handleLogin P st)) = sessionOf st"
      unfolding handleLogin_not_found[OF e p False] by simp
    then show ?thesis unfolding if_not_P[OF False] by (simp add: sessionOf_eq)
  next
    case True
    then obtain u where u: "find (\<lambda>u. email u = e \<and> password u = p) (users st) = Some u"
      by (cases "find (\<lambda>u. email u = e \<and> password u = p) (users st)") (auto simp: find_None_iff)
    have "sessionOf (stateOf (handleLogin P st)) =
        (users st, userObject u, (localStorage st)(''currentUser'' \<mapsto> JSON_stringify P (userObject u)))"
      using e p u by (simp add: handleLogin_def) (simp add: sessionOf_def)
    then have "sessionMirrored P (stateOf (handleLogin P st))"
      by (intro sessionMirrored_user[of _ u]) (simp_all add: sessionOf_def)
    then show ?thesis unfolding if_P[OF True] .
  qed
  have register: "if length p < 6 \<or> (\<exists>u. u \<in> set (users st) \<and> email u = e)
       then currentUser (stateOf (handleRegister P st)) = currentUser st \<and>
            localStorage (stateOf (handleRegister P st)) = localStorage st
       else sessionMirrored P (stateOf (handleRegister P st))"
    if i: "inputValue ''registerName'' (document st) = Some n"
          "inputValue ''registerEmail'' (document st) = Some e"
          "inputValue ''registerPassword'' (document st) = Some p"
          "inputValue ''registerUserType'' (document st) = Some t" for n e p t
  proof (cases "length p < 6 \<or> (\<exists>u. u \<in> set (users st) \<and> email u = e)")
    case True
    with handleRegister_cases[OF i, of P]
    have "sessionOf (stateOf (handleRegister P st)) = sessionOf st" by auto
    then show ?thesis unfolding if_P[OF True] by (simp add: sessionOf_eq)
  next
    case False
    then have np: "\<not> length p < 6" and ne: "\<not> (\<exists>u. u \<in> set (users st) \<and> email u = e)" by auto
    let ?u = "\<lparr>id' = length (users st) + 1, name = n, email = e, password = p, userType = t, role = roleOf t\<rparr>"
    have "sessionOf (stateOf (handleRegister P st)) =
        (users st @ [?u], userObject ?u, (localStorage st)(''currentUser'' \<mapsto> JSON_stringify P (userObject ?u)))"
      unfolding handleRegister_cases[OF i, of P] if_not_P[OF np] if_not_P[OF ne]
      by simp (simp add: sessionOf_def)
    then have "sessionMirrored P (stateOf (handleRegister P st))"
      by (intro sessionMirrored_user[of _ ?u]) (simp_all add: sessionOf_def)
    then show ?thesis unfolding if_not_P[OF False] .
  qed
  have keep: "sessionMirrored P (stateOf (run P Login st)) \<and>
      sessionMirrored P (stateOf (run P Register st)) \<and>
      sessionMirrored P (stateOf (run P Logout st))" if m: "sessionMirrored P st"
  proof (intro conjI)
    from handleLogin_session[of P st] show "sessionMirrored P (stateOf (run P Login st))"
    proof
      assume "sessionOf (stateOf (handleLogin P st)) = sessionOf st"
      then show ?thesis using m sessionMirrored_cong[of "stateOf (handleLogin P st)" st P]
        by (simp add: sessionOf_eq)
    next
      assume "\<exists>u. u \<in> set (users st) \<and> sessionOf (stateOf (handleLogin P st)) =
        (users st, userObject u, (localStorage st)(''currentUser'' \<mapsto> JSON_stringify P (userObject u)))"
      then obtain u where "sessionOf (stateOf (handleLogin P st)) =
        (users st, userObject u, (localStorage st)(''currentUser'' \<mapsto> JSON_stringify P (userObject u)))"
        by blast
      then have "sessionMirrored P (stateOf (handleLogin P st))"
        by (intro sessionMirrored_user[of _ u]) (simp_all add: sessionOf_def)
      then show ?thesis by simp
    qed
    from handleRegister_session[of P st] show "sessionMirrored P (stateOf (run P Register st))"
    proof
      assume "sessionOf (stateOf (handleRegister P st)) = sessionOf st"
      then show ?thesis using m sessionMirrored_cong[of "stateOf (handleRegister P st)" st P]
        by (simp add: sessionOf_eq)
    next
      assume "\<exists>u. id' u = length (users st) + 1 \<and> sessionOf (stateOf (handleRegister P st)) =
        (users st @ [u], userObject u, (localStorage st)(''currentUser'' \<mapsto> JSON_stringify P (userObject u)))"
      then obtain u where "sessionOf (stateOf (handleRegister P st)) =
        (users st @ [u], userObject u, (localStorage st)(''currentUser'' \<mapsto> JSON_stringify P (userObject u)))"
        by blast
      then have "sessionMirrored P (stateOf (handleRegister P st))"
        by (intro sessionMirrored_user[of _ u]) (simp_all add: sessionOf_def)
      then show ?thesis by simp
    qed
    from out show "sessionMirrored P (stateOf (run P Logout st))" by simp
  qed
  from out login register keep show ?thesis by blast
qed

theorem session_mirrored_after_witness:
  "sessionMirrored samplePlatform (loginWith ''demo@lawfirm.com'' ''Demo@123'' (sampleState Map.empty)) \<and>
   inputValue ''loginEmail'' (document (loginWith ''demo@lawfirm.com'' ''Demo@123'' (sampleState Map.empty)))
     = Some ''demo@lawfirm.com'' \<and>
   inputValue ''loginPassword'' (document (loginWith ''demo@lawfirm.com'' ''Demo@123'' (sampleState Map.empty)))
     = Some ''Demo@123'' \<and>
   currentUser (stateOf (handleLogin samplePlatform
     (loginWith ''demo@lawfirm.com'' ''Demo@123'' (sampleState Map.empty)))) = userObject (hd demoUsers) \<and>
   localStorage (stateOf (handleLogin samplePlatform
     (loginWith ''demo@lawfirm.com'' ''Demo@123'' (sampleState Map.empty)))) ''currentUser''
     = Some (userEntry (hd demoUsers)) \<and>
   sessionMirrored samplePlatform (stateOf (handleLogin samplePlatform
     (loginWith ''demo@lawfirm.com'' ''Demo@123'' (sampleState Map.empty)))) \<and>
   sessionMirrored samplePlatform (stateOf (run samplePlatform Register
     (loginWith ''demo@lawfirm.com'' ''Demo@123'' (sampleState Map.empty)))) \<and>
   sessionMirrored samplePlatform (stateOf (handleLogout (sampleState [''currentUser'' \<mapsto> ''garbage''])))"
proof -
  let ?s = "loginWith ''demo@lawfirm.com'' ''Demo@123'' (sampleState Map.empty)"
  have m: "sessionMirrored samplePlatform ?s"
    by (simp add: sessionMirrored_def sample_loginWith)
  have ex: "\<exists>u. u \<in> set (users ?s) \<and> email u = ''demo@lawfirm.com'' \<and> password u = ''Demo@123''"
    by (rule exI[of _ "hd demoUsers"]) (simp add: sample_loginWith demoUsers_def)
  have f: "find (\<lambda>u. email u = ''demo@lawfirm.com'' \<and> password u = ''Demo@123'') (users ?s) = Some (hd demoUsers)"
    by (simp add: sample_loginWith sample_find)
  from handleLogin_found[OF sample_loginWith(1-3) f, of samplePlatform]
  have c: "currentUser (stateOf (handleLogin samplePlatform ?s)) = userObject (hd demoUsers) \<and>
      localStorage (stateOf (handleLogin samplePlatform ?s)) ''currentUser'' = Some (userEntry (hd demoUsers))"
    by (auto simp: sample_stringify)
  note t = session_mirrored_after[of samplePlatform ?s]
  note u = session_mirrored_after[of samplePlatform "sampleState [''currentUser'' \<mapsto> ''garbage'']"]
  from t have a: "sessionMirrored samplePlatform (stateOf (handleLogin samplePlatform ?s))"
    using sample_loginWith(2,3)[of "''demo@lawfirm.com''" "''Demo@123''" Map.empty] ex by auto
  from t m have b: "sessionMirrored samplePlatform (stateOf (run samplePlatform Register ?s))"
    by blast
  from u have d: "sessionMirrored samplePlatform (stateOf (handleLogout (sampleState [''currentUser'' \<mapsto> ''garbage''])))"
    by blast
  from m a b c d show ?thesis
    by (simp add: sample_loginWith)
qed

subsection \<open>Restoring the session on load\<close>

text \<open>
  Claim C5. On the page the script is written for: with no \<open>currentUser\<close> entry in the
  storage the load handler returns the state it found. With an entry that is not empty
  and parses to a record the handler can show (an object whose name is a string and
  whose role, when it has one, has a string: every user record is one), it returns with
  \<open>currentUser\<close> the parsed value, \<open>users\<close> and the storage as before, the dashboard
  shown, the dashboard section the one active content section, and the first sidebar
  link with \<open>href="#"\<close>, where the page has one, the one active sidebar link.
\<close>

theorem loadHandler_restores:
  assumes page: "pageOk (document st)"
  shows "(localStorage st ''currentUser'' = None \<longrightarrow> loadHandler P st = Returns st) \<and>
         (\<forall>s v. localStorage st ''currentUser'' = Some s \<and> s \<noteq> [] \<and> JSON_parse P s = Some v \<and>
                 (isUserRecord v \<or> restorable v) \<longrightarrow>
            (\<exists>st' k. loadHandler P st = Returns st' \<and>
               currentUser st' = v \<and> users st' = users st \<and> localStorage st' = localStorage st \<and>
               dashboardShown (document st') \<and>
               getElementById ''dashboard-section'' (document st) = Some k \<and>
               activeOf ''content-section'' (document st') = [k] \<and>
               activeOf ''sidebar-link'' (document st') =
                 (case defaultLink (document st) of None \<Rightarrow> [] | Some l \<Rightarrow> [l])))"
proof (intro conjI allI impI)
  assume "localStorage st ''currentUser'' = None"
  then show "loadHandler P st = Returns st"
    by (simp add: loadHandler_def)
next
  fix s v
  assume a: "localStorage st ''currentUser'' = Some s \<and> s \<noteq> [] \<and> JSON_parse P s = Some v \<and>
                 (isUserRecord v \<or> restorable v)"
  then have ok: "restorable v"
    using isUserRecord_restorable by blast
  from restorable_hasStringName[OF ok] obtain nm where nm: "getProperty v ''name'' = Inr (Some (JString nm))"
    by (auto simp: hasStringName_getProperty)
  from pageOk_id[OF page, of "''dashboard-section''"] obtain k where
    k: "getElementById ''dashboard-section'' (document st) = Some k"
    by (auto simp: scriptIds_def)
  from a have s: "localStorage st ''currentUser'' = Some s" "s \<noteq> []" "JSON_parse P s = Some v"
    by simp_all
  from loadHandler_restored[OF page s ok nm k] k
  show "\<exists>st' k. loadHandler P st = Returns st' \<and>
               currentUser st' = v \<and> users st' = users st \<and> localStorage st' = localStorage st \<and>
               dashboardShown (document st') \<and>
               getElementById ''dashboard-section'' (document st) = Some k \<and>
               activeOf ''content-section'' (document st') = [k] \<and>
               activeOf ''sidebar-link'' (document st') =
                 (case defaultLink (document st) of None \<Rightarrow> [] | Some l \<Rightarrow> [l])"
    by auto
qed

theorem loadHandler_restores_witness:
  "pageOk (document (sampleState Map.empty)) \<and>
   loadHandler samplePlatform (sampleState Map.empty) = Returns (sampleState Map.empty) \<and>
   pageOk (document (sampleState [''currentUser'' \<mapsto> userEntry (hd demoUsers)])) \<and>
   userEntry (hd demoUsers) \<noteq> [] \<and>
   JSON_parse samplePlatform (userEntry (hd demoUsers)) = Some (userObject (hd demoUsers)) \<and>
   isUserRecord (userObject (hd demoUsers)) \<and>
   (\<exists>st'. loadHandler samplePlatform (sampleState [''currentUser'' \<mapsto> userEntry (hd demoUsers)]) = Returns st' \<and>
      currentUser st' = userObject (hd demoUsers) \<and> users st' = demoUsers \<and>
      localStorage st' ''currentUser'' = Some (userEntry (hd demoUsers)) \<and>
      dashboardShown (document st') \<and>
      activeOf ''content-section'' (document st') = [17] \<and>
      activeOf ''sidebar-link'' (document st') = [15])"
proof -
  let ?s = "sampleState [''currentUser'' \<mapsto> userEntry (hd demoUsers)]"
  note t1 = loadHandler_restores[OF sample_page(1), of Map.empty samplePlatform, THEN conjunct1]
  note t2 = loadHandler_restores[OF sample_page(1), of "[''currentUser'' \<mapsto> userEntry (hd demoUsers)]"
      samplePlatform, THEN conjunct2, rule_format, of "userEntry (hd demoUsers)" "userObject (hd demoUsers)"]
  have a: "loadHandler samplePlatform (sampleState Map.empty) = Returns (sampleState Map.empty)"
    using t1 by (simp add: sample_page)
  have b: "\<exists>st'. loadHandler samplePlatform ?s = Returns st' \<and>
      currentUser st' = userObject (hd demoUsers) \<and> users st' = demoUsers \<and>
      localStorage st' ''currentUser'' = Some (userEntry (hd demoUsers)) \<and>
      dashboardShown (document st') \<and>
      activeOf ''content-section'' (document st') = [17] \<and>
      activeOf ''sidebar-link'' (document st') = [15]"
    using t2 by (auto simp: sample_page sample_parse sample_values)
  from a b show ?thesis
    by (simp add: sample_page sample_parse sample_values)
qed

subsection \<open>Malformed stored data\<close>

text \<open>
  Claim C6, as stated, fails. The stored entry \<open>{"id":1,"name":"Admin","role":"admin"}\<close>
  is not empty and is valid JSON, but the object it encodes is no user record: it has no
  email, password or user type. The load handler does not raise on it: it takes the
  object as \<open>currentUser\<close> and shows the dashboard.
\<close>

theorem loadHandler_partial_record_counterexample:
  "pageOk (document (sampleState [''currentUser'' \<mapsto> adminEntry])) \<and>
   localStorage (sampleState [''currentUser'' \<mapsto> adminEntry]) ''currentUser'' = Some adminEntry \<and>
   adminEntry \<noteq> [] \<and>
   JSON_parse samplePlatform adminEntry = Some adminObject \<and>
   \<not> isUserRecord adminObject \<and>
   \<not> raises (loadHandler samplePlatform (sampleState [''currentUser'' \<mapsto> adminEntry])) \<and>
   currentUser (stateOf (loadHandler samplePlatform (sampleState [''currentUser'' \<mapsto> adminEntry])))
     = adminObject \<and>
   dashboardShown (document (stateOf (loadHandler samplePlatform (sampleState [''currentUser'' \<mapsto> adminEntry]))))"
proof -
  let ?s = "sampleState [''currentUser'' \<mapsto> adminEntry]"
  have st: "localStorage ?s ''currentUser'' = Some adminEntry"
    by (simp add: sample_page)
  have nm: "getProperty adminObject ''name'' = Inr (Some (JString ''Admin''))"
    by (simp add: getProperty_def adminObject_def)
  from loadHandler_restored[OF sample_page(1) st sample_parse(5) sample_parse(1) sample_values(1) nm
      sample_page(2)]
  obtain st' where "loadHandler samplePlatform ?s = Returns st'" "currentUser st' = adminObject"
      "dashboardShown (document st')"
    by blast
  then show ?thesis
    by (simp add: sample_page sample_parse sample_values)
qed

text \<open>
  Claim C6, amended. On the page the script is written for, with a stored
  \<open>currentUser\<close> entry that is not empty, the load handler raises exactly when the
  entry is not valid JSON (a SyntaxError, the state untouched) or the value it parses to
  cannot be shown (a TypeError): it is not an object with a string for a name
  (\<open>null\<close>, a number, a string, an array, an object without a name or with a name
  that is no string), or its role has no string (the role is an object with a
  \<open>toString\<close> property of its own, or an array holding one). For every entry that
  parses to a user record it does not raise.
\<close>

theorem loadHandler_raises_iff:
  assumes page: "pageOk (document st)"
      and stored: "localStorage st ''currentUser'' = Some s"
      and ne: "s \<noteq> []"
  shows "(raises (loadHandler P st) \<longleftrightarrow>
            (case JSON_parse P s of None \<Rightarrow> True | Some v \<Rightarrow> \<not> restorable v)) \<and>
         (JSON_parse P s = None \<longrightarrow> loadHandler P st = Throws SyntaxError st) \<and>
         (\<forall>v. JSON_parse P s = Some v \<and> \<not> restorable v \<longrightarrow>
              (\<exists>st'. loadHandler P st = Throws TypeError st')) \<and>
         (\<forall>v. JSON_parse P s = Some v \<and> isUserRecord v \<longrightarrow> \<not> raises (loadHandler P st))"
proof (cases "JSON_parse P s")
  case None
  with stored ne show ?thesis
    by (simp add: loadHandler_def)
next
  case (Some v)
  show ?thesis
  proof (cases "restorable v")
    case True
    from restorable_hasStringName[OF True] obtain nm where
      nm: "getProperty v ''name'' = Inr (Some (JString nm))"
      by (auto simp: hasStringName_getProperty)
    from pageOk_id[OF page, of "''dashboard-section''"] obtain k where
      k: "getElementById ''dashboard-section'' (document st) = Some k"
      by (auto simp: scriptIds_def)
    from loadHandler_restored[OF page stored ne Some True nm k]
    have "\<not> raises (loadHandler P st)" by auto
    with Some True show ?thesis by simp
  next
    case False
    have page1: "pageOk (document (st\<lparr>currentUser := v\<rparr>))" using page by simp
    from showDashboard_raises[OF page1, of P] False
    obtain st' where "showDashboard P (st\<lparr>currentUser := v\<rparr>) = Throws TypeError st'"
      by auto
    with stored ne Some have "loadHandler P st = Throws TypeError st'"
      by (simp add: loadHandler_def andThen_def)
    with Some False isUserRecord_restorable[of v] show ?thesis by auto
  qed
qed

theorem loadHandler_raises_iff_witness:
  "pageOk (document (sampleState [''currentUser'' \<mapsto> ''null''])) \<and>
   localStorage (sampleState [''currentUser'' \<mapsto> ''null'']) ''currentUser'' = Some ''null'' \<and>
   ''null'' \<noteq> [] \<and>
   JSON_parse samplePlatform ''null'' = Some JNull \<and>
   raises (loadHandler samplePlatform (sampleState [''currentUser'' \<mapsto> ''null''])) \<and>
   JSON_parse samplePlatform badRoleEntry = Some badRoleObject \<and>
   hasStringName badRoleObject \<and>
   raises (loadHandler samplePlatform (sampleState [''currentUser'' \<mapsto> badRoleEntry])) \<and>
   loadHandler samplePlatform (sampleState [''currentUser'' \<mapsto> ''garbage'']) =
     Throws SyntaxError (sampleState [''currentUser'' \<mapsto> ''garbage'']) \<and>
   isUserRecord (userObject (hd demoUsers)) \<and>
   \<not> raises (loadHandler samplePlatform (sampleState [''currentUser'' \<mapsto> userEntry (hd demoUsers)]))"
proof -
  have n: "''null'' \<noteq> []" and g: "''garbage'' \<noteq> []" by simp_all
  have s1: "localStorage (sampleState [''currentUser'' \<mapsto> ''null'']) ''currentUser'' = Some ''null''"
    and s2: "localStorage (sampleState [''currentUser'' \<mapsto> ''garbage'']) ''currentUser'' = Some ''garbage''"
    and s3: "localStorage (sampleState [''currentUser'' \<mapsto> userEntry (hd demoUsers)]) ''currentUser''
       = Some (userEntry (hd demoUsers))"
    and s4: "localStorage (sampleState [''currentUser'' \<mapsto> badRoleEntry]) ''currentUser''
       = Some badRoleEntry"
    by (simp_all add: sample_page)
  from loadHandler_raises_iff[OF sample_page(1) s1 n, of samplePlatform]
  have a: "raises (loadHandler samplePlatform (sampleState [''currentUser'' \<mapsto> ''null'']))"
    by (simp add: sample_parse sample_values)
  from loadHandler_raises_iff[OF sample_page(1) s2 g, of samplePlatform]
  have b: "loadHandler samplePlatform (sampleState [''currentUser'' \<mapsto> ''garbage'']) =
     Throws SyntaxError (sampleState [''currentUser'' \<mapsto> ''garbage''])"
    by (simp add: sample_parse)
  from loadHandler_raises_iff[OF sample_page(1) s3 sample_parse(6), of samplePlatform]
  have c: "\<not> raises (loadHandler samplePlatform (sampleState [''currentUser'' \<mapsto> userEntry (hd demoUsers)]))"
    by (simp add: sample_parse sample_values)
  from loadHandler_raises_iff[OF sample_page(1) s4 sample_parse(8), of samplePlatform]
  have d: "raises (loadHandler samplePlatform (sampleState [''currentUser'' \<mapsto> badRoleEntry]))"
    by (simp add: sample_parse sample_values)
  from a b c d s1 show ?thesis
    by (simp add: sample_page sample_parse sample_values)
qed

subsection \<open>Logout\<close>

text \<open>
  Claim C7. On a page that has the dashboard container, the auth screen and the two
  login fields, \<open>handleLogout\<close> returns from every state, and afterwards \<open>currentUser\<close>
  is \<open>null\<close>, the storage has lost its \<open>currentUser\<close> entry and kept the rest, the
  dashboard container does not carry the active class, the auth screen is displayed as
  \<open>flex\<close>, and both login fields are empty. \<open>users\<close> is as before.
\<close>

theorem handleLogout_logged_out:
  assumes d: "getElementById ''dashboard'' (document st) = Some d"
      and a: "getElementById ''authScreen'' (document st) = Some a"
      and le: "getElementById ''loginEmail'' (document st) = Some le"
      and lp: "getElementById ''loginPassword'' (document st) = Some lp"
  shows "\<exists>st'. handleLogout st = Returns st' \<and>
           users st' = users st \<and>
           currentUser st' = JNull \<and>
           localStorage st' = (localStorage st)(''currentUser'' := None) \<and>
           localStorage st' ''currentUser'' = None \<and>
           map_option (hasClass ''active'') (elementById ''dashboard'' (document st')) = Some False \<and>
           map_option display (elementById ''authScreen'' (document st')) = Some ''flex'' \<and>
           inputValue ''loginEmail'' (document st') = Some [] \<and>
           inputValue ''loginPassword'' (document st') = Some []"
proof -
  let ?doc = "document st"
  note ids = d a le lp
  have lens: "d < length ?doc" "a < length ?doc" "le < length ?doc" "lp < length ?doc"
    using ids[THEN getElementById_Some] by simp_all
  have dist: "d \<noteq> a" "d \<noteq> le" "d \<noteq> lp" "a \<noteq> le" "a \<noteq> lp" "le \<noteq> lp"
    using ids[THEN getElementById_Some] by auto
  define D where "D = ?doc[d := classList_remove ''active'' (?doc ! d),
      a := (?doc ! a)\<lparr>display := ''flex''\<rparr>,
      le := (?doc ! le)\<lparr>el_value := []\<rparr>,
      lp := (?doc ! lp)\<lparr>el_value := []\<rparr>]"
  have ret: "handleLogout st = Returns (st\<lparr>currentUser := JNull,
      localStorage := (localStorage st)(''currentUser'' := None), document := D\<rparr>)"
    using ids lens dist
    by (simp add: handleLogout_def andThen_def onElement_def D_def)
  have ids': "map el_id D = map el_id ?doc"
    using lens dist by (simp add: D_def list_eq_iff_nth_eq nth_list_update)
  have Dd: "D ! d = classList_remove ''active'' (?doc ! d)"
    and Da: "D ! a = (?doc ! a)\<lparr>display := ''flex''\<rparr>"
    and Dle: "D ! le = (?doc ! le)\<lparr>el_value := []\<rparr>"
    and Dlp: "D ! lp = (?doc ! lp)\<lparr>el_value := []\<rparr>"
    using lens dist by (simp_all add: D_def nth_list_update)
  show ?thesis
    unfolding ret
    by (simp add: inputValue_def elementById_ids[OF ids' d] elementById_ids[OF ids' a]
        elementById_ids[OF ids' le] elementById_ids[OF ids' lp] Dd Da Dle Dlp)
qed

theorem handleLogout_logged_out_witness:
  "getElementById ''dashboard'' (document (stateOf (handleLogin samplePlatform
      (loginWith ''demo@lawfirm.com'' ''Demo@123'' (sampleState [''theme'' \<mapsto> ''dark''])))))  = Some 11 \<and>
   getElementById ''authScreen'' (document (stateOf (handleLogin samplePlatform
      (loginWith ''demo@lawfirm.com'' ''Demo@123'' (sampleState [''theme'' \<mapsto> ''dark''])))))  = Some 0 \<and>
   getElementById ''loginEmail'' (document (stateOf (handleLogin samplePlatform
      (loginWith ''demo@lawfirm.com'' ''Demo@123'' (sampleState [''theme'' \<mapsto> ''dark''])))))  = Some 2 \<and>
   getElementById ''loginPassword'' (document (stateOf (handleLogin samplePlatform
      (loginWith ''demo@lawfirm.com'' ''Demo@123'' (sampleState [''theme'' \<mapsto> ''dark''])))))  = Some 3 \<and>
   currentUser (stateOf (handleLogin samplePlatform
      (loginWith ''demo@lawfirm.com'' ''Demo@123'' (sampleState [''theme'' \<mapsto> ''dark'']))))
     = userObject (hd demoUsers) \<and>
   dashboardShown (document (stateOf (handleLogin samplePlatform
      (loginWith ''demo@lawfirm.com'' ''Demo@123'' (sampleState [''theme'' \<mapsto> ''dark''])))))  \<and>
   (\<exists>st'. handleLogout (stateOf (handleLogin samplePlatform
      (loginWith ''demo@lawfirm.com'' ''Demo@123'' (sampleState [''theme'' \<mapsto> ''dark''])))) = Returns st' \<and>
      currentUser st' = JNull \<and> localStorage st' ''currentUser'' = None \<and>
      localStorage st' ''theme'' = Some ''dark'' \<and>
      map_option (hasClass ''active'') (elementById ''dashboard'' (document st')) = Some False \<and>
      map_option display (elementById ''authScreen'' (document st')) = Some ''flex'' \<and>
      inputValue ''loginEmail'' (document st') = Some [] \<and>
      inputValue ''loginPassword'' (document st') = Some [])"
proof -
  let ?s0 = "loginWith ''demo@lawfirm.com'' ''Demo@123'' (sampleState [''theme'' \<mapsto> ''dark''])"
  have f: "find (\<lambda>u. email u = ''demo@lawfirm.com'' \<and> password u = ''Demo@123'') (users ?s0) = Some (hd demoUsers)"
    by (simp add: sample_loginWith sample_find)
  from handleLogin_found[OF sample_loginWith(1-3) f, of samplePlatform]
  obtain s where s: "handleLogin samplePlatform ?s0 = Returns s"
      "currentUser s = userObject (hd demoUsers)"
      "localStorage s = (localStorage ?s0)(''currentUser'' \<mapsto> JSON_stringify samplePlatform (userObject (hd demoUsers)))"
      "map el_id (document s) = map el_id (document ?s0)"
      "dashboardShown (document s)"
    by blast
  have ids: "getElementById ''dashboard'' (document s) = Some 11"
      "getElementById ''authScreen'' (document s) = Some 0"
      "getElementById ''loginEmail'' (document s) = Some 2"
      "getElementById ''loginPassword'' (document s) = Some 3"
    unfolding getElementById_ids[OF s(4)] by (rule sample_ids)+
  from handleLogout_logged_out[OF ids]
  have "\<exists>st'. handleLogout s = Returns st' \<and>
      currentUser st' = JNull \<and> localStorage st' ''currentUser'' = None \<and>
      localStorage st' ''theme'' = Some ''dark'' \<and>
      map_option (hasClass ''active'') (elementById ''dashboard'' (document st')) = Some False \<and>
      map_option display (elementById ''authScreen'' (document st')) = Some ''flex'' \<and>
      inputValue ''loginEmail'' (document st') = Some [] \<and>
      inputValue ''loginPassword'' (document st') = Some []"
    using s(3) by (auto simp: sample_loginWith)
  with ids s(2,5) show ?thesis
    unfolding s(1) by simp
qed

subsection \<open>Section navigation\<close>

text \<open>
  Claim C8, as stated, fails: not for every section id. On the example page, where the
  cases section is the active one, \<open>showSection('nope')\<close> finds no element
  \<open>nope-section\<close>: it raises a TypeError after it has taken the active class from every
  content section and every sidebar link, so that no content section carries it. And
  \<open>showSection('dashboard', linkEl)\<close> with the cases section for \<open>linkEl\<close> returns
  with two content sections active.
\<close>

theorem showSection_unknown_section_counterexample:
  "getElementById (''nope'' @ ''-section'') (document (sampleState Map.empty)) = None \<and>
   activeOf ''content-section'' (document (sampleState Map.empty)) = [18] \<and>
   showSection ''nope'' None (sampleState Map.empty) =
     Throws TypeError (stateOf (showSection ''nope'' None (sampleState Map.empty))) \<and>
   activeOf ''content-section''
     (document (stateOf (showSection ''nope'' None (sampleState Map.empty)))) = [] \<and>
   hasClass ''content-section'' (document (sampleState Map.empty) ! 18) \<and>
   showSection ''dashboard'' (Some 18) (sampleState Map.empty) =
     Returns (stateOf (showSection ''dashboard'' (Some 18) (sampleState Map.empty))) \<and>
   activeOf ''content-section''
     (document (stateOf (showSection ''dashboard'' (Some 18) (sampleState Map.empty)))) = [17, 18]"
  by (simp add: sample_simps showSection_def Let_def activeOf_def classList_add_def
      classList_remove_def upt_conv_Cons)

text \<open>
  Claim C8, amended. On a page that keeps content sections and sidebar links apart, for
  a section id such that \<open>sectionId + '-section'\<close> names a content section, and a link
  that, when it is passed, is no content section, \<open>showSection\<close> returns, and
  afterwards exactly one content section carries the active class: the element that
  \<open>sectionId + '-section'\<close> names. Among the sidebar links the passed link carries it
  when it is one of them, and no other does; with no link passed, none does. For a
  section id such that \<open>sectionId + '-section'\<close> names no element, \<open>showSection\<close>
  raises a TypeError and leaves no content section and no sidebar link with the active
  class.
\<close>

theorem showSection_one_active:
  "(\<forall>k. getElementById (sectionId @ ''-section'') (document st) = Some k \<and>
        hasClass ''content-section'' (document st ! k) \<and>
        list_all (\<lambda>e. \<not> (hasClass ''content-section'' e \<and> hasClass ''sidebar-link'' e)) (document st) \<and>
        (\<forall>j. linkEl = Some j \<and> j < length (document st) \<longrightarrow>
                   \<not> hasClass ''content-section'' (document st ! j)) \<longrightarrow>
     (\<exists>st'. showSection sectionId linkEl st = Returns st' \<and>
           getElementById (sectionId @ ''-section'') (document st') = Some k \<and>
           activeOf ''content-section'' (document st') = [k] \<and>
           activeOf ''sidebar-link'' (document st') =
             (case linkEl of None \<Rightarrow> []
              | Some j \<Rightarrow> if j < length (document st) \<and> hasClass ''sidebar-link'' (document st ! j)
                          then [j] else []))) \<and>
   (getElementById (sectionId @ ''-section'') (document st) = None \<longrightarrow>
     (\<exists>st'. showSection sectionId linkEl st = Throws TypeError st' \<and>
           activeOf ''content-section'' (document st') = [] \<and>
           activeOf ''sidebar-link'' (document st') = []))"
proof (intro conjI allI impI)
  fix k
  assume a: "getElementById (sectionId @ ''-section'') (document st) = Some k \<and>
        hasClass ''content-section'' (document st ! k) \<and>
        list_all (\<lambda>e. \<not> (hasClass ''content-section'' e \<and> hasClass ''sidebar-link'' e)) (document st) \<and>
        (\<forall>j. linkEl = Some j \<and> j < length (document st) \<longrightarrow>
                   \<not> hasClass ''content-section'' (document st ! j))"
  then have sec: "getElementById (sectionId @ ''-section'') (document st) = Some k"
    and cs: "hasClass ''content-section'' (document st ! k)"
    and dis: "list_all (\<lambda>e. \<not> (hasClass ''content-section'' e \<and> hasClass ''sidebar-link'' e)) (document st)"
    and link: "\<forall>j. linkEl = Some j \<and> j < length (document st) \<longrightarrow>
                   \<not> hasClass ''content-section'' (document st ! j)"
    by simp_all
  from showSection_effects[OF sec cs dis link] obtain st' where
    st': "showSection sectionId linkEl st = Returns st'"
      "map el_id (document st') = map el_id (document st)"
      "activeOf ''content-section'' (document st') = [k]"
      "activeOf ''sidebar-link'' (document st') =
         (case linkEl of None \<Rightarrow> []
          | Some j \<Rightarrow> if j < length (document st) \<and> hasClass ''sidebar-link'' (document st ! j)
                      then [j] else [])"
    by blast
  from getElementById_ids[OF st'(2)] sec
  have "getElementById (sectionId @ ''-section'') (document st') = Some k" by simp
  with st' show "\<exists>st'. showSection sectionId linkEl st = Returns st' \<and>
           getElementById (sectionId @ ''-section'') (document st') = Some k \<and>
           activeOf ''content-section'' (document st') = [k] \<and>
           activeOf ''sidebar-link'' (document st') =
             (case linkEl of None \<Rightarrow> []
              | Some j \<Rightarrow> if j < length (document st) \<and> hasClass ''sidebar-link'' (document st ! j)
                          then [j] else [])"
    by simp
next
  assume "getElementById (sectionId @ ''-section'') (document st) = None"
  from showSection_unknown[OF this]
  show "\<exists>st'. showSection sectionId linkEl st = Throws TypeError st' \<and>
           activeOf ''content-section'' (document st') = [] \<and>
           activeOf ''sidebar-link'' (document st') = []" .
qed

theorem showSection_one_active_witness:
  "getElementById (''dashboard'' @ ''-section'') (document (sampleState Map.empty)) = Some 17 \<and>
   hasClass ''content-section'' (document (sampleState Map.empty) ! 17) \<and>
   list_all (\<lambda>e. \<not> (hasClass ''content-section'' e \<and> hasClass ''sidebar-link'' e)) (document (sampleState Map.empty)) \<and>
   15 < length (document (sampleState Map.empty)) \<and>
   \<not> hasClass ''content-section'' (document (sampleState Map.empty) ! 15) \<and>
   hasClass ''sidebar-link'' (document (sampleState Map.empty) ! 15) \<and>
   activeOf ''content-section'' (document (sampleState Map.empty)) = [18] \<and>
   activeOf ''sidebar-link'' (document (sampleState Map.empty)) = [16] \<and>
   (\<exists>st'. showSection ''dashboard'' (Some 15) (sampleState Map.empty) = Returns st' \<and>
           getElementById (''dashboard'' @ ''-section'') (document st') = Some 17 \<and>
           activeOf ''content-section'' (document st') = [17] \<and>
           activeOf ''sidebar-link'' (document st') = [15]) \<and>
   getElementById (''billing'' @ ''-section'') (document (sampleState Map.empty)) = None \<and>
   (\<exists>st'. showSection ''billing'' (Some 15) (sampleState Map.empty) = Throws TypeError st' \<and>
           activeOf ''content-section'' (document st') = [] \<and>
           activeOf ''sidebar-link'' (document st') = [])"
proof -
  let ?st = "sampleState Map.empty"
  have h1: "getElementById (''dashboard'' @ ''-section'') (document ?st) = Some 17"
    by (simp add: sampleState_def initialState_def samplePage_def getElementById_def el_def)
  have h2: "hasClass ''content-section'' (document ?st ! 17)"
    by (simp add: sampleState_def initialState_def samplePage_def el_def hasClass_def)
  have h3: "list_all (\<lambda>e. \<not> (hasClass ''content-section'' e \<and> hasClass ''sidebar-link'' e)) (document ?st)"
    by (simp add: sampleState_def initialState_def samplePage_def el_def hasClass_def)
  have h4: "15 < length (document ?st) \<and> \<not> hasClass ''content-section'' (document ?st ! 15) \<and>
      hasClass ''sidebar-link'' (document ?st ! 15)"
    by (simp add: sampleState_def initialState_def samplePage_def el_def hasClass_def)
  have h5: "activeOf ''content-section'' (document ?st) = [18] \<and> activeOf ''sidebar-link'' (document ?st) = [16]"
    by (simp add: sampleState_def initialState_def samplePage_def el_def hasClass_def activeOf_def upt_conv_Cons)
  have h4': "\<forall>j. Some 15 = Some j \<and> j < length (document ?st) \<longrightarrow>
      \<not> hasClass ''content-section'' (document ?st ! j)"
    by (simp add: sampleState_def initialState_def samplePage_def el_def hasClass_def)
  have h6: "getElementById (''billing'' @ ''-section'') (document ?st) = None"
    by (simp add: sampleState_def initialState_def samplePage_def getElementById_def el_def)
  note t = showSection_one_active[where st = "?st" and linkEl = "Some 15"]
  from t[where sectionId = "''dashboard''"] h1 h2 h3 h4'
  have a: "\<exists>st'. showSection ''dashboard'' (Some 15) ?st = Returns st' \<and>
           getElementById (''dashboard'' @ ''-section'') (document st') = Some 17 \<and>
           activeOf ''content-section'' (document st') = [17] \<and>
           activeOf ''sidebar-link'' (document st') = [15]"
    using h4 by simp
  from t[where sectionId = "''billing''"] h6
  have b: "\<exists>st'. showSection ''billing'' (Some 15) ?st = Throws TypeError st' \<and>
           activeOf ''content-section'' (document st') = [] \<and>
           activeOf ''sidebar-link'' (document st') = []"
    by simp
  from a b h1 h2 h3 h4 h5 h6 show ?thesis by simp
qed

subsection \<open>Rejected registrations\<close>

text \<open>
  Claim C9. With the four fields of the registration form read, \<open>handleRegister\<close> leaves
  \<open>users\<close>, \<open>currentUser\<close> and the storage all unchanged exactly when the password
  has fewer than 6 characters or some record of \<open>users\<close> has the submitted email. A
  short password puts the password message into the registration error element; a
  password that is long enough with an email already taken puts the email message there.
\<close>

theorem handleRegister_rejects_iff:
  assumes n: "inputValue ''registerName'' (document st) = Some n"
      and e: "inputValue ''registerEmail'' (document st) = Some e"
      and p: "inputValue ''registerPassword'' (document st) = Some p"
      and t: "inputValue ''registerUserType'' (document st) = Some t"
      and k: "getElementById ''registerError'' (document st) = Some k"
  shows "(sessionOf (stateOf (handleRegister P st)) = sessionOf st \<longleftrightarrow>
            length p < 6 \<or> (\<exists>u. u \<in> set (users st) \<and> email u = e)) \<and>
         (if length p < 6
          then handleRegister P st = Returns (st\<lparr>document := (document st)
                 [k := (document st ! k)\<lparr>innerHTML := errorMessage ''Password must be at least 6 characters''\<rparr>]\<rparr>)
          else if (\<exists>u. u \<in> set (users st) \<and> email u = e)
          then handleRegister P st = Returns (st\<lparr>document := (document st)
                 [k := (document st ! k)\<lparr>innerHTML := errorMessage ''Email already registered''\<rparr>]\<rparr>)
          else users (stateOf (handleRegister P st)) \<noteq> users st)"
proof -
  note c = handleRegister_cases[OF n e p t, of P]
  show ?thesis
  proof (cases "length p < 6 \<or> (\<exists>u. u \<in> set (users st) \<and> email u = e)")
    case True
    then show ?thesis
      using c k by (auto simp: showError_def)
  next
    case False
    let ?st2 = "st\<lparr>users := users st @ [\<lparr>id' = length (users st) + 1, name = n, email = e, password = p,
                                       userType = t, role = roleOf t\<rparr>],
                 currentUser := userObject \<lparr>id' = length (users st) + 1, name = n, email = e,
                                       password = p, userType = t, role = roleOf t\<rparr>,
                 localStorage := (localStorage st)(''currentUser'' \<mapsto> JSON_stringify P
                    (userObject \<lparr>id' = length (users st) + 1, name = n, email = e,
                                       password = p, userType = t, role = roleOf t\<rparr>))\<rparr>"
    from False have np: "\<not> length p < 6" and ne: "\<not> (\<exists>u. u \<in> set (users st) \<and> email u = e)"
      by auto
    from c have call: "handleRegister P st = showDashboard P ?st2"
      unfolding if_not_P[OF np] if_not_P[OF ne] .
    have "sessionOf (stateOf (handleRegister P st)) = sessionOf ?st2"
      unfolding call by simp
    then have "users (stateOf (handleRegister P st)) = users ?st2"
      by (simp add: sessionOf_eq)
    then have "users (stateOf (handleRegister P st)) \<noteq> users st" by simp
    with False show ?thesis by (auto simp: sessionOf_eq)
  qed
qed

theorem handleRegister_rejects_iff_witness:
  "inputValue ''registerName'' (document (registerWith ''Ann'' ''demo@lawfirm.com'' ''secret'' ''solo'' (sampleState Map.empty)))
     = Some ''Ann'' \<and>
   inputValue ''registerEmail'' (document (registerWith ''Ann'' ''demo@lawfirm.com'' ''secret'' ''solo'' (sampleState Map.empty)))
     = Some ''demo@lawfirm.com'' \<and>
   inputValue ''registerPassword'' (document (registerWith ''Ann'' ''demo@lawfirm.com'' ''secret'' ''solo'' (sampleState Map.empty)))
     = Some ''secret'' \<and>
   inputValue ''registerUserType'' (document (registerWith ''Ann'' ''demo@lawfirm.com'' ''secret'' ''solo'' (sampleState Map.empty)))
     = Some ''solo'' \<and>
   getElementById ''registerError'' (document (registerWith ''Ann'' ''demo@lawfirm.com'' ''secret'' ''solo'' (sampleState Map.empty)))
     = Some 10 \<and>
   sessionOf (stateOf (handleRegister samplePlatform
      (registerWith ''Ann'' ''demo@lawfirm.com'' ''secret'' ''solo'' (sampleState Map.empty)))) =
     (demoUsers, JNull, Map.empty) \<and>
   innerHTML (document (stateOf (handleRegister samplePlatform
      (registerWith ''Ann'' ''demo@lawfirm.com'' ''secret'' ''solo'' (sampleState Map.empty)))) ! 10) =
     errorMessage ''Email already registered'' \<and>
   sessionOf (stateOf (handleRegister samplePlatform
      (registerWith ''Ann'' ''ann@firm.com'' ''secre'' ''solo'' (sampleState Map.empty)))) =
     (demoUsers, JNull, Map.empty) \<and>
   innerHTML (document (stateOf (handleRegister samplePlatform
      (registerWith ''Ann'' ''ann@firm.com'' ''secre'' ''solo'' (sampleState Map.empty)))) ! 10) =
     errorMessage ''Password must be at least 6 characters'' \<and>
   users (stateOf (handleRegister samplePlatform
      (registerWith ''Ann'' ''ann@firm.com'' ''secret'' ''solo'' (sampleState Map.empty)))) \<noteq> demoUsers"
proof -
  let ?s1 = "registerWith ''Ann'' ''demo@lawfirm.com'' ''secret'' ''solo'' (sampleState Map.empty)"
  let ?s2 = "registerWith ''Ann'' ''ann@firm.com'' ''secre'' ''solo'' (sampleState Map.empty)"
  let ?s3 = "registerWith ''Ann'' ''ann@firm.com'' ''secret'' ''solo'' (sampleState Map.empty)"
  note h1 = sample_registerWith(2-6)[of "''Ann''" "''demo@lawfirm.com''" "''secret''" "''solo''" Map.empty]
  note h2 = sample_registerWith(2-6)[of "''Ann''" "''ann@firm.com''" "''secre''" "''solo''" Map.empty]
  note h3 = sample_registerWith(2-6)[of "''Ann''" "''ann@firm.com''" "''secret''" "''solo''" Map.empty]
  have taken: "\<exists>u. u \<in> set (users ?s1) \<and> email u = ''demo@lawfirm.com''"
    by (rule exI[of _ "hd demoUsers"]) (simp add: sample_registerWith demoUsers_def)
  have fresh: "\<not> (\<exists>u. u \<in> set (users ?s3) \<and> email u = ''ann@firm.com'')"
    by (auto simp: sample_registerWith demoUsers_def)
  have long: "\<not> length ''secret'' < 6" and short: "length ''secre'' < 6" by simp_all
  from handleRegister_rejects_iff[OF h1, of samplePlatform, THEN conjunct2,
      unfolded if_not_P[OF long] if_P[OF taken]]
  have r1: "sessionOf (stateOf (handleRegister samplePlatform ?s1)) = (demoUsers, JNull, Map.empty) \<and>
      innerHTML (document (stateOf (handleRegister samplePlatform ?s1)) ! 10) =
        errorMessage ''Email already registered''"
    by (simp add: sample_registerWith sessionOf_def)
  from handleRegister_rejects_iff[OF h2, of samplePlatform, THEN conjunct2, unfolded if_P[OF short]]
  have r2: "sessionOf (stateOf (handleRegister samplePlatform ?s2)) = (demoUsers, JNull, Map.empty) \<and>
      innerHTML (document (stateOf (handleRegister samplePlatform ?s2)) ! 10) =
        errorMessage ''Password must be at least 6 characters''"
    by (simp add: sample_registerWith sessionOf_def)
  from handleRegister_rejects_iff[OF h3, of samplePlatform, THEN conjunct2,
      unfolded if_not_P[OF long] if_not_P[OF fresh]]
  have r3: "users (stateOf (handleRegister samplePlatform ?s3)) \<noteq> demoUsers"
    by (simp add: sample_registerWith)
  from h1 r1 r2 r3 show ?thesis by simp
qed

subsection \<open>Accepted registrations\<close>

text \<open>
  Claim C10. On the page the script is written for, with a password of at least 6
  characters and an email no record of \<open>users\<close> has, \<open>handleRegister\<close> returns with
  one record appended to \<open>users\<close>: its id is the length of the list before plus one,
  its name, email, password and user type are the submitted ones, and its role is
  Law Firm for the type firm, Solo Practitioner for the type solo and In-House Counsel
  for every other type. That record is \<open>currentUser\<close>, its serialization is stored, and
  the dashboard is shown.
\<close>

theorem handleRegister_appends:
  assumes page: "pageOk (document st)"
      and n: "inputValue ''registerName'' (document st) = Some n"
      and e: "inputValue ''registerEmail'' (document st) = Some e"
      and p: "inputValue ''registerPassword'' (document st) = Some p"
      and t: "inputValue ''registerUserType'' (document st) = Some t"
      and long: "6 \<le> length p"
      and fresh: "\<not> (\<exists>u. u \<in> set (users st) \<and> email u = e)"
  shows "\<exists>st' newUser. handleRegister P st = Returns st' \<and>
           newUser = \<lparr>id' = length (users st) + 1, name = n, email = e, password = p, userType = t,
                       role = (if t = ''firm'' then ''Law Firm''
                               else if t = ''solo'' then ''Solo Practitioner'' else ''In-House Counsel'')\<rparr> \<and>
           users st' = users st @ [newUser] \<and>
           currentUser st' = userObject newUser \<and>
           localStorage st' = (localStorage st)(''currentUser'' \<mapsto> JSON_stringify P (userObject newUser)) \<and>
           dashboardShown (document st') \<and>
           map_option textContent (elementById ''displayUserName'' (document st')) = Some n"
proof -
  let ?u = "\<lparr>id' = length (users st) + 1, name = n, email = e, password = p, userType = t, role = roleOf t\<rparr>"
  let ?st2 = "st\<lparr>users := users st @ [?u], currentUser := userObject ?u,
                 localStorage := (localStorage st)(''currentUser'' \<mapsto> JSON_stringify P (userObject ?u))\<rparr>"
  from long have np: "\<not> length p < 6" by simp
  from handleRegister_cases[OF n e p t, of P]
  have call: "handleRegister P st = showDashboard P ?st2"
    unfolding if_not_P[OF np] if_not_P[OF fresh] .
  have page2: "pageOk (document ?st2)" using page by simp
  from showDashboard_shown[of ?st2 n "Some (JString (roleOf t))" P, OF page2]
  obtain st' where st': "showDashboard P ?st2 = Returns st'" "sessionOf st' = sessionOf ?st2"
       "dashboardShown (document st')"
       "map_option textContent (elementById ''displayUserName'' (document st')) = Some n"
    by auto
  from st'(2) have "users st' = users st @ [?u]" "currentUser st' = userObject ?u"
       "localStorage st' = (localStorage st)(''currentUser'' \<mapsto> JSON_stringify P (userObject ?u))"
    by (simp_all add: sessionOf_eq)
  with call st' show ?thesis by (simp add: roleOf_def)
qed

theorem handleRegister_appends_witness:
  "pageOk (document (registerWith ''Ann'' ''ann@firm.com'' ''secret'' ''corporate'' (sampleState Map.empty))) \<and>
   inputValue ''registerName'' (document (registerWith ''Ann'' ''ann@firm.com'' ''secret'' ''corporate'' (sampleState Map.empty)))
     = Some ''Ann'' \<and>
   inputValue ''registerEmail'' (document (registerWith ''Ann'' ''ann@firm.com'' ''secret'' ''corporate'' (sampleState Map.empty)))
     = Some ''ann@firm.com'' \<and>
   inputValue ''registerPassword'' (document (registerWith ''Ann'' ''ann@firm.com'' ''secret'' ''corporate'' (sampleState Map.empty)))
     = Some ''secret'' \<and>
   inputValue ''registerUserType'' (document (registerWith ''Ann'' ''ann@firm.com'' ''secret'' ''corporate'' (sampleState Map.empty)))
     = Some ''corporate'' \<and>
   6 \<le> length ''secret'' \<and>
   \<not> (\<exists>u. u \<in> set (users (registerWith ''Ann'' ''ann@firm.com'' ''secret'' ''corporate'' (sampleState Map.empty)))
          \<and> email u = ''ann@firm.com'') \<and>
   (\<exists>st'. handleRegister samplePlatform
            (registerWith ''Ann'' ''ann@firm.com'' ''secret'' ''corporate'' (sampleState Map.empty)) = Returns st' \<and>
          users st' = demoUsers @ [\<lparr>id' = 4, name = ''Ann'', email = ''ann@firm.com'', password = ''secret'',
                                     userType = ''corporate'', role = ''In-House Counsel''\<rparr>] \<and>
          currentUser st' = userObject \<lparr>id' = 4, name = ''Ann'', email = ''ann@firm.com'',
                                     password = ''secret'', userType = ''corporate'', role = ''In-House Counsel''\<rparr> \<and>
          localStorage st' ''currentUser'' = Some (userEntry \<lparr>id' = 4, name = ''Ann'', email = ''ann@firm.com'',
                                     password = ''secret'', userType = ''corporate'', role = ''In-House Counsel''\<rparr>) \<and>
          dashboardShown (document st'))"
proof -
  let ?s = "registerWith ''Ann'' ''ann@firm.com'' ''secret'' ''corporate'' (sampleState Map.empty)"
  note h = sample_registerWith(1-5)[of "''Ann''" "''ann@firm.com''" "''secret''" "''corporate''" Map.empty]
  have long: "6 \<le> length ''secret''" by simp
  have fresh: "\<not> (\<exists>u. u \<in> set (users ?s) \<and> email u = ''ann@firm.com'')"
    by (auto simp: sample_registerWith demoUsers_def)
  from handleRegister_appends[OF h long fresh, of samplePlatform]
  have "\<exists>st'. handleRegister samplePlatform ?s = Returns st' \<and>
          users st' = demoUsers @ [\<lparr>id' = 4, name = ''Ann'', email = ''ann@firm.com'', password = ''secret'',
                                     userType = ''corporate'', role = ''In-House Counsel''\<rparr>] \<and>
          currentUser st' = userObject \<lparr>id' = 4, name = ''Ann'', email = ''ann@firm.com'',
                                     password = ''secret'', userType = ''corporate'', role = ''In-House Counsel''\<rparr> \<and>
          localStorage st' ''currentUser'' = Some (userEntry \<lparr>id' = 4, name = ''Ann'', email = ''ann@firm.com'',
                                     password = ''secret'', userType = ''corporate'', role = ''In-House Counsel''\<rparr>) \<and>
          dashboardShown (document st')"
    by (auto simp: sample_registerWith sample_stringify length_demoUsers)
  with h long fresh show ?thesis by simp
qed

end
